theory Spec2Isabelle
  imports Complex_Main "HOL-Library.Option_ord" "HOL-Library.Sublist"
begin

section \<open>Data model\<close>

subsection \<open>Shops (models/Shop.ts)\<close>

text \<open>
  The fields of \<open>IShop\<close> that the explore routes read: the document identifier \<open>_id\<close>,
  \<open>tag\<close>, \<open>location.id\<close>, the optional \<open>rating\<close>, \<open>reviewCount\<close> (schema default 0),
  \<open>isActive\<close> and the \<open>createdAt\<close> timestamp. A missing rating is \<open>None\<close>; the document
  store orders a missing value below every number, as the order on \<open>option\<close> does.
\<close>

record shop =
  sid :: string
  name :: string
  tag :: string
  location_id :: string
  rating :: "rat option"
  reviewCount :: nat
  isActive :: bool
  createdAt :: nat

subsection \<open>Users (models/User.ts)\<close>

record budget =
  budget_min :: int
  budget_max :: int
  currency :: string

record sizes =
  tops :: string
  bottoms :: string
  shoes :: string

record user_preferences =
  style :: "string list"
  budget :: budget
  favoriteCategories :: "string list"
  sizes :: sizes
  favoriteLocations :: "string list"
  shoppingFrequency :: string
  sustainabilityImportance :: int
  vintagePreference :: int
  brandPreference :: string
  aestheticVibes :: "string list"

text \<open>
  \<open>preferences\<close> is optional here because the routes test \<open>user?.preferences\<close>; whether a
  stored user can lack it is a matter of the schema (see \<open>User_create\<close>).
\<close>

record user =
  uid :: string
  email :: string
  uname :: string
  preferences :: "user_preferences option"
  onboardingCompleted :: bool

subsection \<open>Recommendation output\<close>

datatype based_on = Style | History | Similar_users | Trending

datatype section_type = T_trending | T_for_you | T_new | T_nearby | T_category

record item =
  shop :: shop
  reason :: string
  matchScore :: rat
  basedOn :: based_on

record feed_section =
  title :: string
  subtitle :: string
  stype :: section_type
  items :: "item list"

text \<open>
  Every route answers \<open>{success: true, data}\<close> or \<open>{success: false, error}\<close> with an HTTP
  status; a failure carries no data.
\<close>

datatype 'a response = Success 'a | Failure nat string

datatype error = DbError | TypeError | CastError | ValidationError

section \<open>The shop repository\<close>

subsection \<open>Queries\<close>

text \<open>The filter documents the routes build: \<open>isActive\<close>, \<open>location.id $in\<close>, \<open>tag $in\<close>, \<open>_id $nin\<close>.\<close>

record query =
  q_isActive :: "bool option"
  q_location_in :: "string list option"
  q_tag_in :: "string list option"
  q_id_nin :: "string list option"

definition matches :: "query \<Rightarrow> shop \<Rightarrow> bool" where
  "matches q s \<longleftrightarrow>
     (case q_isActive q of None \<Rightarrow> True | Some b \<Rightarrow> isActive s = b) \<and>
     (case q_location_in q of None \<Rightarrow> True | Some ls \<Rightarrow> location_id s \<in> set ls) \<and>
     (case q_tag_in q of None \<Rightarrow> True | Some ts \<Rightarrow> tag s \<in> set ts) \<and>
     (case q_id_nin q of None \<Rightarrow> True | Some is \<Rightarrow> sid s \<notin> set is)"

definition active_only :: query where
  "active_only = \<lparr>q_isActive = Some True, q_location_in = None, q_tag_in = None, q_id_nin = None\<rparr>"

subsection \<open>Sorting\<close>

text \<open>
  Every \<open>.sort({...})\<close> of the routes is descending (\<open>-1\<close>) on one or two of these fields,
  the first field being the major key.
\<close>

datatype sort_field = By_reviewCount | By_rating | By_createdAt

definition sort_value :: "sort_field \<Rightarrow> shop \<Rightarrow> rat option" where
  "sort_value f s =
     (case f of
        By_reviewCount \<Rightarrow> Some (of_nat (reviewCount s))
      | By_rating \<Rightarrow> rating s
      | By_createdAt \<Rightarrow> Some (of_nat (createdAt s)))"

text \<open>\<open>precedes fs a b\<close>: the sort specification puts \<open>a\<close> strictly before \<open>b\<close>.\<close>

fun precedes :: "sort_field list \<Rightarrow> shop \<Rightarrow> shop \<Rightarrow> bool" where
  "precedes [] a b = False"
| "precedes (f # fs) a b =
     (sort_value f b < sort_value f a \<or> (sort_value f a = sort_value f b \<and> precedes fs a b))"

text \<open>
  Modelled from the spec: the document store's sort is not part of the sources; the
  repository contract (spec 4.3 and 8) asks for a stable sort, ties keeping catalog order.
  It is modelled as insertion sort, each element entering behind the elements that
  strictly precede it and in front of its ties.
\<close>

fun insert_sorted :: "('a \<Rightarrow> 'a \<Rightarrow> bool) \<Rightarrow> 'a \<Rightarrow> 'a list \<Rightarrow> 'a list" where
  "insert_sorted lt x [] = [x]"
| "insert_sorted lt x (y # ys) = (if lt y x then y # insert_sorted lt x ys else x # y # ys)"

definition stable_sort :: "('a \<Rightarrow> 'a \<Rightarrow> bool) \<Rightarrow> 'a list \<Rightarrow> 'a list" where
  "stable_sort lt xs = foldr (insert_sorted lt) xs []"

subsection \<open>Sampling\<close>

text \<open>
  Modelled from the spec: \<open>$sample\<close> is the store's random sample, without replacement
  (spec 4.7 and 6). The random source is explicit: \<open>rnd k\<close> is the draw made when \<open>k + 1\<close>
  documents are still to be picked.
\<close>

fun sample :: "(nat \<Rightarrow> nat) \<Rightarrow> nat \<Rightarrow> 'a list \<Rightarrow> 'a list" where
  "sample rnd 0 xs = []"
| "sample rnd (Suc n) xs =
     (if xs = [] then []
      else let i = rnd n mod length xs
           in xs ! i # sample rnd n (take i xs @ drop (Suc i) xs))"

subsection \<open>The repository as the routes see it\<close>

text \<open>
  Each read either returns or throws. \<open>Shop_find q fs n\<close> is
  \<open>Shop.find(q).sort(fs).limit(n)\<close>, \<open>Shop_aggregate q n\<close> is
  \<open>Shop.aggregate([{$match: q}, {$sample: {size: n}}])\<close>.
\<close>

record repo =
  User_findById :: "string \<Rightarrow> error + user option"
  Shop_find :: "query \<Rightarrow> sort_field list \<Rightarrow> nat \<Rightarrow> error + shop list"
  Shop_aggregate :: "query \<Rightarrow> nat \<Rightarrow> error + shop list"

text \<open>A store whose reads succeed: the catalog in insertion order, the users, the random source.\<close>

record store =
  shops :: "shop list"
  users :: "user list"
  random :: "nat \<Rightarrow> nat"

definition find_shops :: "shop list \<Rightarrow> query \<Rightarrow> sort_field list \<Rightarrow> nat \<Rightarrow> shop list" where
  "find_shops cat q fs n = take n (stable_sort (precedes fs) (filter (matches q) cat))"

definition mongo :: "store \<Rightarrow> repo" where
  "mongo st =
     \<lparr>User_findById = (\<lambda>i. Inr (find (\<lambda>u. uid u = i) (users st))),
      Shop_find = (\<lambda>q fs n. Inr (find_shops (shops st) q fs n)),
      Shop_aggregate = (\<lambda>q n. Inr (sample (random st) n (filter (matches q) (shops st))))\<rparr>"

section \<open>Property lookup on object literals\<close>

text \<open>
  The routes keep their static tables in object literals and index them with request
  strings. Such a lookup also finds the members every object inherits from
  \<open>Object.prototype\<close>: functions (with their name and declared \<open>length\<close>) and, under
  \<open>__proto__\<close>, the prototype object itself.
\<close>

datatype 'a property = Undefined | Own 'a | Inherited_function string nat | Inherited_object

definition object_prototype :: "(string \<times> string \<times> nat) list" where
  "object_prototype =
     [(''constructor'', ''Object'', 1),
      (''hasOwnProperty'', ''hasOwnProperty'', 1),
      (''isPrototypeOf'', ''isPrototypeOf'', 1),
      (''propertyIsEnumerable'', ''propertyIsEnumerable'', 1),
      (''toLocaleString'', ''toLocaleString'', 0),
      (''toString'', ''toString'', 0),
      (''valueOf'', ''valueOf'', 0),
      (''__defineGetter__'', ''__defineGetter__'', 2),
      (''__defineSetter__'', ''__defineSetter__'', 2),
      (''__lookupGetter__'', ''__lookupGetter__'', 1),
      (''__lookupSetter__'', ''__lookupSetter__'', 1)]"

definition get_property :: "(string \<times> 'a) list \<Rightarrow> string \<Rightarrow> 'a property" where
  "get_property tbl k =
     (case map_of tbl k of
        Some v \<Rightarrow> Own v
      | None \<Rightarrow>
          (case map_of object_prototype k of
             Some (f, n) \<Rightarrow> Inherited_function f n
           | None \<Rightarrow> if k = ''__proto__'' then Inherited_object else Undefined))"

definition inherited :: "string \<Rightarrow> bool" where
  "inherited k \<longleftrightarrow> k = ''__proto__'' \<or> k \<in> set (map fst object_prototype)"

section \<open>routes/explore.ts\<close>

subsection \<open>getPersonalizedShops\<close>

definition styleToTagMap :: "(string \<times> string list) list" where
  "styleToTagMap =
     [(''vintage'', [''Vintage'', ''Pre-Loved'', ''Thrift'']),
      (''y2k'', [''Streetwear'', ''Hype'']),
      (''grunge'', [''Grunge'', ''Imports'', ''Alternative'']),
      (''minimalist'', [''Basics'', ''Premium'']),
      (''streetwear'', [''Streetwear'', ''Hype'', ''Urban'']),
      (''cottagecore'', [''Ethnic'', ''Boutique'']),
      (''old-money'', [''Premium'', ''Formal'', ''Classic'']),
      (''bohemian'', [''Ethnic'', ''Boutique'', ''Vintage''])]"

text \<open>
  The \<open>styles.forEach\<close> loop. An own entry is spread into \<open>preferredTags\<close>; a style without
  entry contributes nothing; an inherited member is truthy but not iterable, so the
  spread throws a TypeError.
\<close>

fun collect_tags :: "string list \<Rightarrow> string list \<Rightarrow> error + string list" where
  "collect_tags preferredTags [] = Inr preferredTags"
| "collect_tags preferredTags (s # ss) =
     (case get_property styleToTagMap s of
        Undefined \<Rightarrow> collect_tags preferredTags ss
      | Own tags \<Rightarrow> collect_tags (preferredTags @ tags) ss
      | Inherited_function f n \<Rightarrow> Inl TypeError
      | Inherited_object \<Rightarrow> Inl TypeError)"

text \<open>\<open>[...new Set(xs)]\<close>: the first occurrence of each element, in order.\<close>

definition uniq :: "'a list \<Rightarrow> 'a list" where
  "uniq xs = rev (remdups (rev xs))"

definition personal_query :: "user_preferences \<Rightarrow> string list \<Rightarrow> query" where
  "personal_query prefs preferredTags =
     \<lparr>q_isActive = Some True,
      q_location_in =
        (if favoriteLocations prefs \<noteq> [] then Some (favoriteLocations prefs) else None),
      q_tag_in = (if preferredTags \<noteq> [] then Some (uniq preferredTags) else None),
      q_id_nin = None\<rparr>"

definition backfill_query :: "shop list \<Rightarrow> query" where
  "backfill_query selected =
     \<lparr>q_isActive = Some True, q_location_in = None, q_tag_in = None,
      q_id_nin = Some (map sid selected)\<rparr>"

definition getPersonalizedShops :: "repo \<Rightarrow> user_preferences \<Rightarrow> error + shop list" where
  "getPersonalizedShops db prefs =
     (case collect_tags [] (style prefs) of
        Inl e \<Rightarrow> Inl e
      | Inr preferredTags \<Rightarrow>
          (case Shop_find db (personal_query prefs preferredTags) [By_rating, By_reviewCount] 12 of
             Inl e \<Rightarrow> Inl e
           | Inr found \<Rightarrow>
               if length found < 6 then
                 (case Shop_aggregate db (backfill_query found) (6 - length found) of
                    Inl e \<Rightarrow> Inl e
                  | Inr additionalShops \<Rightarrow> Inr (found @ additionalShops))
               else Inr found))"

subsection \<open>GET /sections\<close>

definition wrap :: "string \<Rightarrow> rat \<Rightarrow> based_on \<Rightarrow> shop \<Rightarrow> item" where
  "wrap r m b s = \<lparr>shop = s, reason = r, matchScore = m, basedOn = b\<rparr>"

definition for_you_section :: "shop list \<Rightarrow> feed_section" where
  "for_you_section forYouShops =
     \<lparr>title = ''For You'', subtitle = ''Based on your style preferences'', stype = T_for_you,
      items = map (wrap ''Matches your style'' (85 / 100) Style) forYouShops\<rparr>"

definition trending_section :: "shop list \<Rightarrow> feed_section" where
  "trending_section trendingShops =
     \<lparr>title = ''Trending This Week'', subtitle = ''Most visited stores in Bangalore'',
      stype = T_trending,
      items = map (wrap ''Popular choice'' (9 / 10) Trending) trendingShops\<rparr>"

definition new_section :: "shop list \<Rightarrow> feed_section" where
  "new_section newShops =
     \<lparr>title = ''Recently Added'', subtitle = ''Fresh finds in our database'', stype = T_new,
      items = map (wrap ''New addition'' (7 / 10) Similar_users) newShops\<rparr>"

text \<open>The first block of the handler: the sections pushed before Trending.\<close>

definition sections_for_you :: "repo \<Rightarrow> string option \<Rightarrow> error + feed_section list" where
  "sections_for_you db userId =
     (case userId of
        None \<Rightarrow> Inr []
      | Some i \<Rightarrow>
          (case User_findById db i of
             Inl e \<Rightarrow> Inl e
           | Inr None \<Rightarrow> Inr []
           | Inr (Some u) \<Rightarrow>
               (case preferences u of
                  None \<Rightarrow> Inr []
                | Some prefs \<Rightarrow>
                    (case getPersonalizedShops db prefs of
                       Inl e \<Rightarrow> Inl e
                     | Inr forYouShops \<Rightarrow> Inr [for_you_section forYouShops]))))"

definition compose_sections :: "repo \<Rightarrow> string option \<Rightarrow> error + feed_section list" where
  "compose_sections db userId =
     (case sections_for_you db userId of
        Inl e \<Rightarrow> Inl e
      | Inr s1 \<Rightarrow>
          (case Shop_find db active_only [By_reviewCount, By_rating] 6 of
             Inl e \<Rightarrow> Inl e
           | Inr trendingShops \<Rightarrow>
               (case Shop_find db active_only [By_createdAt] 6 of
                  Inl e \<Rightarrow> Inl e
                | Inr newShops \<Rightarrow>
                    Inr (s1 @ [trending_section trendingShops] @ [new_section newShops]))))"

text \<open>The \<open>try\<close>/\<open>catch\<close> of the handler.\<close>

definition get_sections :: "repo \<Rightarrow> string option \<Rightarrow> feed_section list response" where
  "get_sections db userId =
     (case compose_sections db userId of
        Inl e \<Rightarrow> Failure 500 ''Failed to get explore sections''
      | Inr sections \<Rightarrow> Success sections)"

subsection \<open>GET /trending and GET /new\<close>

definition get_trending :: "repo \<Rightarrow> shop list response" where
  "get_trending db =
     (case Shop_find db active_only [By_reviewCount, By_rating] 12 of
        Inl e \<Rightarrow> Failure 500 ''Failed to get trending shops''
      | Inr found \<Rightarrow> Success found)"

definition get_new :: "repo \<Rightarrow> shop list response" where
  "get_new db =
     (case Shop_find db active_only [By_createdAt] 12 of
        Inl e \<Rightarrow> Failure 500 ''Failed to get new shops''
      | Inr found \<Rightarrow> Success found)"

subsection \<open>GET /for-you\<close>

text \<open>\<open>user.preferences.style?.[0] || "style"\<close>: an empty string is falsy too.\<close>

definition first_style :: "user_preferences option \<Rightarrow> string" where
  "first_style p =
     (case p of
        None \<Rightarrow> ''style''
      | Some prefs \<Rightarrow> (case style prefs of [] \<Rightarrow> ''style'' | s # _ \<Rightarrow> if s = [] then ''style'' else s))"

definition anonymous_section :: "shop list \<Rightarrow> feed_section" where
  "anonymous_section sampled =
     \<lparr>title = ''Recommended For You'', subtitle = ''Sign up to get personalized picks'',
      stype = T_for_you,
      items = map (wrap ''Popular in your area'' (7 / 10) Trending) sampled\<rparr>"

definition personal_section :: "user_preferences option \<Rightarrow> shop list \<Rightarrow> feed_section" where
  "personal_section p found =
     \<lparr>title = ''For You'', subtitle = ''Based on your style preferences'', stype = T_for_you,
      items = map (wrap (''Matches your '' @ first_style p @ '' vibe'') (85 / 100) Style) found\<rparr>"

text \<open>
  \<open>getPersonalizedShops(user.preferences)\<close> reads \<open>preferences.favoriteLocations\<close> at once,
  which throws on a user without preferences.
\<close>

definition get_for_you :: "repo \<Rightarrow> string option \<Rightarrow> feed_section response" where
  "get_for_you db userId =
     (case userId of
        None \<Rightarrow>
          (case Shop_aggregate db active_only 12 of
             Inl e \<Rightarrow> Failure 500 ''Failed to get recommendations''
           | Inr sampled \<Rightarrow> Success (anonymous_section sampled))
      | Some i \<Rightarrow>
          (case User_findById db i of
             Inl e \<Rightarrow> Failure 500 ''Failed to get recommendations''
           | Inr None \<Rightarrow> Failure 404 ''User not found''
           | Inr (Some u) \<Rightarrow>
               (case preferences u of
                  None \<Rightarrow> Failure 500 ''Failed to get recommendations''
                | Some prefs \<Rightarrow>
                    (case getPersonalizedShops db prefs of
                       Inl e \<Rightarrow> Failure 500 ''Failed to get recommendations''
                     | Inr found \<Rightarrow> Success (personal_section (preferences u) found)))))"

subsection \<open>GET /category/:category\<close>

definition categoryTagMap :: "(string \<times> string list) list" where
  "categoryTagMap =
     [(''trending'', []),
      (''vintage'', [''Vintage'', ''Pre-Loved'', ''Thrift'']),
      (''streetwear'', [''Streetwear'', ''Hype'', ''Urban'']),
      (''sustainable'', [''Thrift'', ''Pre-Loved'', ''Sustainable'']),
      (''designer'', [''Luxury Thrift'', ''Premium'', ''Designer'']),
      (''budget'', [''Budget'', ''Cheapest'', ''Wholesale'']),
      (''denim'', [''Denim'', ''Jeans'']),
      (''winter'', [''Winter Wear'', ''Winter'', ''Jackets''])]"

definition tag_query :: "string list \<Rightarrow> query" where
  "tag_query ts = \<lparr>q_isActive = Some True, q_location_in = None, q_tag_in = Some ts, q_id_nin = None\<rparr>"

text \<open>
  \<open>const tags = categoryTagMap[category] || []\<close>, then the test
  \<open>category === "trending" || tags.length === 0\<close>. An inherited function is truthy and its
  \<open>length\<close> is its declared arity; the prototype object has no \<open>length\<close>. In the \<open>else\<close>
  branch the operand of \<open>$in\<close> is cast by the string schema type of \<open>tag\<close>: a value that is
  not an array is cast on its own and wrapped, a function casts to its source text, and
  the plain prototype object is refused with a cast error.
\<close>

definition function_text :: "string \<Rightarrow> string" where
  "function_text f = ''function '' @ f @ ''() { [native code] }''"

definition category_shops :: "repo \<Rightarrow> string \<Rightarrow> error + shop list" where
  "category_shops db category =
     (case get_property categoryTagMap category of
        Undefined \<Rightarrow> Shop_find db active_only [By_reviewCount, By_rating] 12
      | Own tags \<Rightarrow>
          if category = ''trending'' \<or> length tags = 0
          then Shop_find db active_only [By_reviewCount, By_rating] 12
          else Shop_find db (tag_query tags) [By_rating] 12
      | Inherited_function f n \<Rightarrow>
          if category = ''trending'' \<or> n = 0
          then Shop_find db active_only [By_reviewCount, By_rating] 12
          else Shop_find db (tag_query [function_text f]) [By_rating] 12
      | Inherited_object \<Rightarrow> Inl CastError)"

definition get_category :: "repo \<Rightarrow> string \<Rightarrow> shop list response" where
  "get_category db category =
     (case category_shops db category of
        Inl e \<Rightarrow> Failure 500 ''Failed to get category shops''
      | Inr found \<Rightarrow> Success found)"

section \<open>routes/auth.ts: registration\<close>

subsection \<open>Onboarding answers\<close>

text \<open>
  \<open>OnboardingAnswers\<close> (types/index.ts) maps a question identifier to
  \<open>string | string[] | number\<close>; the sign-up page produces its numbers with \<open>parseInt\<close>.
\<close>

datatype answer = AStr string | AStrs "string list" | ANum int

text \<open>Truthiness: the empty string and 0 are falsy, an array never is.\<close>

fun truthy :: "answer \<Rightarrow> bool" where
  "truthy (AStr s) = (s \<noteq> [])"
| "truthy (AStrs xs) = True"
| "truthy (ANum n) = (n \<noteq> 0)"

definition present :: "answer option \<Rightarrow> answer option" where
  "present a = (case a of None \<Rightarrow> None | Some v \<Rightarrow> if truthy v then Some v else None)"

text \<open>A value used as a property key is converted to a string first.\<close>

function dec_nat :: "nat \<Rightarrow> string" where
  "dec_nat n =
     (if n < 10 then [char_of (48 + n)] else dec_nat (n div 10) @ [char_of (48 + n mod 10)])"
  by pat_completeness auto
termination
  by (relation "measure (\<lambda>n. n)") auto

definition dec_int :: "int \<Rightarrow> string" where
  "dec_int i = (if i < 0 then CHR ''-'' # dec_nat (nat (- i)) else dec_nat (nat i))"

fun join_comma :: "string list \<Rightarrow> string" where
  "join_comma [] = []"
| "join_comma [x] = x"
| "join_comma (x # y # ys) = x @ '','' @ join_comma (y # ys)"

fun toPropertyKey :: "answer \<Rightarrow> string" where
  "toPropertyKey (AStr s) = s"
| "toPropertyKey (AStrs xs) = join_comma xs"
| "toPropertyKey (ANum n) = dec_int n"

subsection \<open>parseOnboardingAnswers\<close>

text \<open>The \<open>preferences\<close> object it builds: a key is either set or left out.\<close>

record raw_budget =
  rb_min :: "int option"
  rb_max :: "int option"
  rb_currency :: string

record raw_sizes =
  rs_tops :: answer
  rs_bottoms :: answer
  rs_shoes :: string

record raw_preferences =
  r_style :: "answer option"
  r_budget :: "raw_budget option"
  r_favoriteCategories :: "answer option"
  r_sizes :: "raw_sizes option"
  r_favoriteLocations :: "answer option"
  r_shoppingFrequency :: "answer option"
  r_sustainabilityImportance :: "answer option"
  r_vintagePreference :: "answer option"
  r_brandPreference :: "answer option"

definition budgetMap :: "(string \<times> int \<times> int) list" where
  "budgetMap =
     [(''budget-low'', 0, 500),
      (''budget-mid'', 500, 1500),
      (''budget-high'', 1500, 3000),
      (''budget-premium'', 3000, 10000)]"

text \<open>
  \<open>{...budgetMap[key], currency: "INR"}\<close>: spreading \<open>undefined\<close>, or an inherited member
  (which has no enumerable property of its own), adds nothing.
\<close>

definition budget_of :: "answer \<Rightarrow> raw_budget" where
  "budget_of v =
     (case get_property budgetMap (toPropertyKey v) of
        Own (lo, hi) \<Rightarrow> \<lparr>rb_min = Some lo, rb_max = Some hi, rb_currency = ''INR''\<rparr>
      | Undefined \<Rightarrow> \<lparr>rb_min = None, rb_max = None, rb_currency = ''INR''\<rparr>
      | Inherited_function f n \<Rightarrow> \<lparr>rb_min = None, rb_max = None, rb_currency = ''INR''\<rparr>
      | Inherited_object \<Rightarrow> \<lparr>rb_min = None, rb_max = None, rb_currency = ''INR''\<rparr>)"

definition parseOnboardingAnswers :: "(string \<rightharpoonup> answer) \<Rightarrow> raw_preferences" where
  "parseOnboardingAnswers answers =
     \<lparr>r_style = present (answers ''style''),
      r_budget = map_option budget_of (present (answers ''budget'')),
      r_favoriteCategories = present (answers ''categories''),
      r_sizes =
        map_option
          (\<lambda>t. \<lparr>rs_tops = t,
                rs_bottoms =
                  (case present (answers ''sizes-bottoms'') of None \<Rightarrow> AStr [] | Some b \<Rightarrow> b),
                rs_shoes = []\<rparr>)
          (present (answers ''sizes-tops'')),
      r_favoriteLocations = present (answers ''locations''),
      r_shoppingFrequency = present (answers ''frequency''),
      r_sustainabilityImportance = present (answers ''sustainability''),
      r_vintagePreference = present (answers ''vintage-preference''),
      r_brandPreference = present (answers ''brand-preference'')\<rparr>"

definition no_preferences :: raw_preferences where
  "no_preferences =
     \<lparr>r_style = None, r_budget = None, r_favoriteCategories = None, r_sizes = None,
      r_favoriteLocations = None, r_shoppingFrequency = None,
      r_sustainabilityImportance = None, r_vintagePreference = None,
      r_brandPreference = None\<rparr>"

subsection \<open>userPreferencesSchema and userSchema (models/User.ts)\<close>

text \<open>
  Creating a document casts each path that is set to the type the schema declares and
  gives each path that is not set its declared default. The cast of a numeric string
  is JavaScript's \<open>Number\<close>, which is not part of the sources and is the parameter \<open>num\<close>.
\<close>

definition cast_strings :: "answer \<Rightarrow> error + string list" where
  "cast_strings v =
     (case v of AStrs xs \<Rightarrow> Inr xs | AStr s \<Rightarrow> Inr [s] | ANum n \<Rightarrow> Inr [dec_int n])"

definition cast_string :: "answer \<Rightarrow> error + string" where
  "cast_string v =
     (case v of AStr s \<Rightarrow> Inr s | ANum n \<Rightarrow> Inr (dec_int n) | AStrs xs \<Rightarrow> Inl CastError)"

definition cast_number :: "(string \<Rightarrow> int option) \<Rightarrow> answer \<Rightarrow> error + int" where
  "cast_number num v =
     (case v of
        ANum n \<Rightarrow> Inr n
      | AStr s \<Rightarrow> (case num s of None \<Rightarrow> Inl CastError | Some n \<Rightarrow> Inr n)
      | AStrs xs \<Rightarrow> Inl CastError)"

text \<open>\<open>min: 1, max: 5\<close> on the two importance scores.\<close>

definition cast_score :: "(string \<Rightarrow> int option) \<Rightarrow> answer \<Rightarrow> error + int" where
  "cast_score num v =
     (case cast_number num v of
        Inl e \<Rightarrow> Inl e
      | Inr n \<Rightarrow> if 1 \<le> n \<and> n \<le> 5 then Inr n else Inl ValidationError)"

definition or_default :: "'a \<Rightarrow> (answer \<Rightarrow> error + 'a) \<Rightarrow> answer option \<Rightarrow> error + 'a" where
  "or_default d cast a = (case a of None \<Rightarrow> Inr d | Some v \<Rightarrow> cast v)"

definition cast_budget :: "raw_budget option \<Rightarrow> budget" where
  "cast_budget b =
     (case b of
        None \<Rightarrow> \<lparr>budget_min = 0, budget_max = 5000, currency = ''INR''\<rparr>
      | Some rb \<Rightarrow>
          \<lparr>budget_min = (case rb_min rb of None \<Rightarrow> 0 | Some m \<Rightarrow> m),
           budget_max = (case rb_max rb of None \<Rightarrow> 5000 | Some m \<Rightarrow> m),
           currency = rb_currency rb\<rparr>)"

definition ebind :: "error + 'a \<Rightarrow> ('a \<Rightarrow> error + 'b) \<Rightarrow> error + 'b" where
  "ebind m f = (case m of Inl e \<Rightarrow> Inl e | Inr x \<Rightarrow> f x)"

definition cast_sizes :: "raw_sizes option \<Rightarrow> error + sizes" where
  "cast_sizes z =
     (case z of
        None \<Rightarrow> Inr \<lparr>tops = ''m'', bottoms = ''30-32'', shoes = []\<rparr>
      | Some rs \<Rightarrow>
          ebind (cast_string (rs_tops rs)) (\<lambda>t.
          ebind (cast_string (rs_bottoms rs)) (\<lambda>b.
          Inr \<lparr>tops = t, bottoms = b, shoes = rs_shoes rs\<rparr>)))"

definition cast_preferences ::
  "(string \<Rightarrow> int option) \<Rightarrow> raw_preferences \<Rightarrow> error + user_preferences" where
  "cast_preferences num raw =
     ebind (or_default [] cast_strings (r_style raw)) (\<lambda>st.
     ebind (or_default [] cast_strings (r_favoriteCategories raw)) (\<lambda>fc.
     ebind (cast_sizes (r_sizes raw)) (\<lambda>sz.
     ebind (or_default [] cast_strings (r_favoriteLocations raw)) (\<lambda>fl.
     ebind (or_default ''monthly'' cast_string (r_shoppingFrequency raw)) (\<lambda>sf.
     ebind (or_default 3 (cast_score num) (r_sustainabilityImportance raw)) (\<lambda>si.
     ebind (or_default 3 (cast_score num) (r_vintagePreference raw)) (\<lambda>vp.
     ebind (or_default ''no-preference'' cast_string (r_brandPreference raw)) (\<lambda>bp.
     Inr \<lparr>style = st, budget = cast_budget (r_budget raw), favoriteCategories = fc,
          sizes = sz, favoriteLocations = fl, shoppingFrequency = sf,
          sustainabilityImportance = si, vintagePreference = vp, brandPreference = bp,
          aestheticVibes = []\<rparr>))))))))"

text \<open>
  \<open>User.create\<close>: the \<open>preferences\<close> path has the default \<open>() => ({})\<close>, so a document
  created without preferences gets the empty subdocument, which is then filled with the
  defaults of \<open>userPreferencesSchema\<close>. The validators of \<open>email\<close>, \<open>password\<close> and \<open>name\<close>
  are not modelled (the route has checked these fields before).
\<close>

record new_user =
  n_email :: string
  n_name :: string
  n_preferences :: "raw_preferences option"
  n_onboardingCompleted :: bool

definition User_create :: "(string \<Rightarrow> int option) \<Rightarrow> string \<Rightarrow> new_user \<Rightarrow> error + user" where
  "User_create num new_id doc =
     ebind
       (cast_preferences num
          (case n_preferences doc of None \<Rightarrow> no_preferences | Some raw \<Rightarrow> raw))
       (\<lambda>p. Inr \<lparr>uid = new_id, email = n_email doc, uname = n_name doc,
                 preferences = Some p,
                 onboardingCompleted = n_onboardingCompleted doc\<rparr>)"

subsection \<open>POST /register, once the body is validated and the email is free\<close>

record register_body =
  b_email :: string
  b_name :: string
  b_onboardingAnswers :: "(string \<rightharpoonup> answer) option"

definition register_user ::
  "(string \<Rightarrow> int option) \<Rightarrow> string \<Rightarrow> register_body \<Rightarrow> error + user" where
  "register_user num new_id body =
     User_create num new_id
       \<lparr>n_email = b_email body, n_name = b_name body,
        n_preferences =
          Some (case b_onboardingAnswers body of
                  None \<Rightarrow> no_preferences
                | Some answers \<Rightarrow> parseOnboardingAnswers answers),
        n_onboardingCompleted = (b_onboardingAnswers body \<noteq> None)\<rparr>"


section \<open>Properties stated over responses\<close>

definition section_ids :: "feed_section \<Rightarrow> string list" where
  "section_ids sec = map (\<lambda>it. sid (shop it)) (items sec)"

text \<open>No shop identifier occurs twice across all the sections of a response.\<close>

definition cross_section_unique :: "feed_section list \<Rightarrow> bool" where
  "cross_section_unique secs = distinct (concat (map section_ids secs))"

text \<open>The gate of the For You block of \<open>GET /sections\<close>.\<close>

definition has_profile :: "repo \<Rightarrow> string option \<Rightarrow> bool" where
  "has_profile db userId =
     (case userId of
        None \<Rightarrow> False
      | Some i \<Rightarrow>
          (case User_findById db i of
             Inl e \<Rightarrow> False
           | Inr None \<Rightarrow> False
           | Inr (Some u) \<Rightarrow> preferences u \<noteq> None))"

text \<open>The defaults declared by \<open>userPreferencesSchema\<close>.\<close>

definition default_preferences :: user_preferences where
  "default_preferences =
     \<lparr>style = [], budget = \<lparr>budget_min = 0, budget_max = 5000, currency = ''INR''\<rparr>,
      favoriteCategories = [], sizes = \<lparr>tops = ''m'', bottoms = ''30-32'', shoes = []\<rparr>,
      favoriteLocations = [], shoppingFrequency = ''monthly'',
      sustainabilityImportance = 3, vintagePreference = 3,
      brandPreference = ''no-preference'', aestheticVibes = []\<rparr>"

section \<open>Example data\<close>

definition shop_a :: shop where
  "shop_a = \<lparr>sid = ''s1'', name = ''Attic'', tag = ''Budget'', location_id = ''koramangala'',
     rating = Some 4, reviewCount = 10, isActive = True, createdAt = 1\<rparr>"

definition shop_b :: shop where
  "shop_b = \<lparr>sid = ''s2'', name = ''Bazaar'', tag = ''Vintage'', location_id = ''indiranagar'',
     rating = Some (9 / 2), reviewCount = 10, isActive = True, createdAt = 2\<rparr>"

definition shop_c :: shop where
  "shop_c = \<lparr>sid = ''s3'', name = ''Closet'', tag = ''Budget'', location_id = ''jayanagar'',
     rating = None, reviewCount = 30, isActive = True, createdAt = 3\<rparr>"

definition shop_d :: shop where
  "shop_d = \<lparr>sid = ''s4'', name = ''Depot'', tag = ''Denim'', location_id = ''koramangala'',
     rating = Some 4, reviewCount = 10, isActive = True, createdAt = 4\<rparr>"

definition shop_e :: shop where
  "shop_e = \<lparr>sid = ''s5'', name = ''Emporium'', tag = ''Budget'', location_id = ''hsr'',
     rating = Some 5, reviewCount = 2, isActive = False, createdAt = 5\<rparr>"

definition shop_f :: shop where
  "shop_f = \<lparr>sid = ''s6'', name = ''Fab'', tag = ''Streetwear'', location_id = ''hsr'',
     rating = Some 3, reviewCount = 7, isActive = True, createdAt = 6\<rparr>"

definition shop_g :: shop where
  "shop_g = \<lparr>sid = ''s7'', name = ''Garage'', tag = ''Budget'', location_id = ''jayanagar'',
     rating = Some (7 / 2), reviewCount = 0, isActive = True, createdAt = 7\<rparr>"

definition user_vintage :: user where
  "user_vintage = \<lparr>uid = ''u1'', email = ''v@example.com'', uname = ''V'',
     preferences = Some (default_preferences\<lparr>style := [''vintage'']\<rparr>),
     onboardingCompleted = True\<rparr>"

definition user_skipped :: user where
  "user_skipped = \<lparr>uid = ''u2'', email = ''w@example.com'', uname = ''W'',
     preferences = Some default_preferences, onboardingCompleted = False\<rparr>"

definition user_constructor :: user where
  "user_constructor = \<lparr>uid = ''u3'', email = ''c@example.com'', uname = ''C'',
     preferences = Some (default_preferences\<lparr>style := [''constructor'']\<rparr>),
     onboardingCompleted = True\<rparr>"

definition one_shop_store :: store where
  "one_shop_store = \<lparr>shops = [shop_a], users = [user_vintage, user_skipped], random = (\<lambda>k. 0)\<rparr>"

definition small_store :: store where
  "small_store =
     \<lparr>shops = [shop_a, shop_b, shop_c, shop_d, shop_e],
      users = [user_vintage, user_skipped], random = (\<lambda>k. k + 1)\<rparr>"

definition six_store :: store where
  "six_store =
     \<lparr>shops = [shop_a, shop_b, shop_c, shop_d, shop_e, shop_f, shop_g],
      users = [user_vintage, user_skipped], random = (\<lambda>k. 7 * k + 3)\<rparr>"

definition constructor_store :: store where
  "constructor_store =
     \<lparr>shops = [shop_a, shop_b, shop_c, shop_d, shop_e],
      users = [user_vintage, user_skipped, user_constructor], random = (\<lambda>k. k + 1)\<rparr>"

text \<open>A repository whose Trending read throws while every other read succeeds.\<close>

definition trending_down :: repo where
  "trending_down =
     (mongo small_store)
       \<lparr>Shop_find :=
          (\<lambda>q fs n. if fs = [By_reviewCount, By_rating] then Inl DbError
                     else Shop_find (mongo small_store) q fs n)\<rparr>"

section \<open>Sorting and sampling\<close>

lemma set_insert_sorted: "set (insert_sorted lt x ys) = insert x (set ys)"
  by (induction ys) auto

lemma length_insert_sorted: "length (insert_sorted lt x ys) = Suc (length ys)"
  by (induction ys) auto

lemma distinct_map_insert_sorted:
  "distinct (map f (insert_sorted lt x ys)) \<longleftrightarrow> f x \<notin> f ` set ys \<and> distinct (map f ys)"
  by (induction ys) (auto simp: set_insert_sorted)

lemma filter_insert_sorted:
  "\<forall>y \<in> set ys. P x \<and> P y \<longrightarrow> \<not> lt y x \<Longrightarrow>
   filter P (insert_sorted lt x ys) = (if P x then x # filter P ys else filter P ys)"
  by (induction ys) auto

lemma stable_sort_Cons: "stable_sort lt (x # xs) = insert_sorted lt x (stable_sort lt xs)"
  by (simp add: stable_sort_def)

lemma stable_sort_Nil: "stable_sort lt [] = []"
  by (simp add: stable_sort_def)

lemma set_stable_sort: "set (stable_sort lt xs) = set xs"
  by (induction xs) (auto simp: stable_sort_Nil stable_sort_Cons set_insert_sorted)

lemma length_stable_sort: "length (stable_sort lt xs) = length xs"
  by (induction xs) (auto simp: stable_sort_Nil stable_sort_Cons length_insert_sorted)

lemma distinct_map_stable_sort:
  "distinct (map f (stable_sort lt xs)) \<longleftrightarrow> distinct (map f xs)"
  by (induction xs)
    (simp_all add: stable_sort_Nil stable_sort_Cons distinct_map_insert_sorted set_stable_sort)

text \<open>Stability: elements that are tied among themselves keep their order.\<close>

lemma filter_stable_sort:
  assumes "\<And>x y. P x \<Longrightarrow> P y \<Longrightarrow> \<not> lt y x"
  shows "filter P (stable_sort lt xs) = filter P xs"
proof (induction xs)
  case Nil
  then show ?case by (simp add: stable_sort_Nil)
next
  case (Cons x xs)
  have "\<forall>y \<in> set (stable_sort lt xs). P x \<and> P y \<longrightarrow> \<not> lt y x"
    using assms by blast
  then show ?case
    using Cons by (simp add: stable_sort_Cons filter_insert_sorted)
qed

lemma sorted_insert_sorted:
  assumes ntr: "\<And>a b c. \<not> lt b a \<Longrightarrow> \<not> lt c b \<Longrightarrow> \<not> lt c a"
    and asym: "\<And>a b. lt a b \<Longrightarrow> \<not> lt b a"
  shows "sorted_wrt (\<lambda>a b. \<not> lt b a) ys \<Longrightarrow>
         sorted_wrt (\<lambda>a b. \<not> lt b a) (insert_sorted lt x ys)"
proof (induction ys)
  case Nil
  then show ?case by simp
next
  case (Cons y ys)
  show ?case
  proof (cases "lt y x")
    case True
    then have "\<not> lt x y" using asym by blast
    with True Cons show ?thesis by (auto simp: set_insert_sorted)
  next
    case False
    with Cons show ?thesis using ntr by auto
  qed
qed

lemma sorted_stable_sort:
  assumes "\<And>a b c. \<not> lt b a \<Longrightarrow> \<not> lt c b \<Longrightarrow> \<not> lt c a"
    and "\<And>a b. lt a b \<Longrightarrow> \<not> lt b a"
  shows "sorted_wrt (\<lambda>a b. \<not> lt b a) (stable_sort lt xs)"
proof (induction xs)
  case Nil
  then show ?case by (simp add: stable_sort_Nil)
next
  case (Cons x xs)
  have "sorted_wrt (\<lambda>a b. \<not> lt b a) (insert_sorted lt x (stable_sort lt xs))"
    using assms Cons by (rule sorted_insert_sorted)
  then show ?case by (simp only: stable_sort_Cons)
qed

lemma precedes_asym: "precedes fs a b \<Longrightarrow> \<not> precedes fs b a"
  by (induction fs) auto

lemma precedes_negtrans:
  "\<not> precedes fs b a \<Longrightarrow> \<not> precedes fs c b \<Longrightarrow> \<not> precedes fs c a"
  by (induction fs) (auto simp: not_less)

lemma sorted_find_shops:
  "sorted_wrt (\<lambda>a b. \<not> precedes fs b a) (find_shops cat q fs n)"
proof -
  have "sorted_wrt (\<lambda>a b. \<not> precedes fs b a) (stable_sort (precedes fs) (filter (matches q) cat))"
  proof (rule sorted_stable_sort)
    show "\<And>a b c. \<not> precedes fs b a \<Longrightarrow> \<not> precedes fs c b \<Longrightarrow> \<not> precedes fs c a"
      by (rule precedes_negtrans)
    show "\<And>a b. precedes fs a b \<Longrightarrow> \<not> precedes fs b a"
      by (rule precedes_asym)
  qed
  then show ?thesis
    unfolding find_shops_def by (rule sorted_wrt_take)
qed

lemma set_find_shops: "set (find_shops cat q fs n) \<subseteq> {s \<in> set cat. matches q s}"
proof -
  have "set (find_shops cat q fs n) \<subseteq> set (stable_sort (precedes fs) (filter (matches q) cat))"
    unfolding find_shops_def by (rule set_take_subset)
  then show ?thesis
    by (simp add: set_stable_sort subset_iff)
qed

lemma length_find_shops:
  "length (find_shops cat q fs n) = min n (length (filter (matches q) cat))"
  by (simp add: find_shops_def length_stable_sort min.commute)

lemma distinct_find_shops:
  assumes "distinct (map f cat)"
  shows "distinct (map f (find_shops cat q fs n))"
proof -
  have "distinct (map f (filter (matches q) cat))"
    using assms by (rule distinct_map_filter)
  then have "distinct (map f (stable_sort (precedes fs) (filter (matches q) cat)))"
    by (simp only: distinct_map_stable_sort)
  then have "distinct (take n (map f (stable_sort (precedes fs) (filter (matches q) cat))))"
    by (rule distinct_take)
  then show ?thesis
    by (simp only: find_shops_def take_map)
qed

lemma matches_active_only: "matches active_only s \<longleftrightarrow> isActive s"
  by (simp add: matches_def active_only_def)

lemma length_sample: "length (sample rnd n xs) = min n (length xs)"
proof (induction n arbitrary: xs)
  case 0
  then show ?case by simp
next
  case (Suc n)
  show ?case
  proof (cases "xs = []")
    case True
    then show ?thesis by simp
  next
    case False
    then have "rnd n mod length xs < length xs" by simp
    then have len: "length (sample rnd n
        (take (rnd n mod length xs) xs @ drop (Suc (rnd n mod length xs)) xs))
      = min n (length xs - 1)"
      using Suc[of "take (rnd n mod length xs) xs @ drop (Suc (rnd n mod length xs)) xs"]
      by simp
    have "length (sample rnd (Suc n) xs) = Suc (min n (length xs - 1))"
      using False len by (simp add: Let_def)
    also have "\<dots> = min (Suc n) (length xs)"
      using False by (cases xs) auto
    finally show ?thesis .
  qed
qed

lemma set_sample: "set (sample rnd n xs) \<subseteq> set xs"
proof (induction n arbitrary: xs)
  case 0
  then show ?case by simp
next
  case (Suc n)
  show ?case
  proof (cases "xs = []")
    case True
    then show ?thesis by simp
  next
    case False
    let ?i = "rnd n mod length xs"
    have "set (take ?i xs @ drop (Suc ?i) xs) \<subseteq> set xs"
      using set_take_subset set_drop_subset by fastforce
    with Suc[of "take ?i xs @ drop (Suc ?i) xs"] False show ?thesis
      by (auto simp: Let_def)
  qed
qed

lemma distinct_map_sample:
  "distinct (map f xs) \<Longrightarrow> distinct (map f (sample rnd n xs))"
proof (induction n arbitrary: xs)
  case 0
  then show ?case by simp
next
  case (Suc n)
  show ?case
  proof (cases "xs = []")
    case True
    then show ?thesis by simp
  next
    case False
    let ?i = "rnd n mod length xs"
    let ?rest = "take ?i xs @ drop (Suc ?i) xs"
    have i: "?i < length xs" using False by simp
    have xs: "xs = take ?i xs @ xs ! ?i # drop (Suc ?i) xs"
      using i by (rule id_take_nth_drop)
    have d: "distinct (map f (take ?i xs @ xs ! ?i # drop (Suc ?i) xs))"
      using Suc.prems xs by simp
    then have rest: "distinct (map f ?rest)" and notin: "f (xs ! ?i) \<notin> f ` set ?rest"
      by auto
    have "f (xs ! ?i) \<notin> f ` set (sample rnd n ?rest)"
      using notin set_sample[of rnd n ?rest] by blast
    with Suc.IH[OF rest] False show ?thesis
      by (simp add: Let_def)
  qed
qed

section \<open>The store behind the repository\<close>

lemmas example_defs = shop_a_def shop_b_def shop_c_def shop_d_def shop_e_def shop_f_def
  shop_g_def small_store_def six_store_def
  one_shop_store_def user_vintage_def user_skipped_def default_preferences_def

lemma Shop_find_mongo: "Shop_find (mongo st) q fs n = Inr (find_shops (shops st) q fs n)"
  by (simp add: mongo_def)

lemma Shop_aggregate_mongo:
  "Shop_aggregate (mongo st) q n = Inr (sample (random st) n (filter (matches q) (shops st)))"
  by (simp add: mongo_def)

lemma User_findById_mongo: "User_findById (mongo st) i = Inr (find (\<lambda>u. uid u = i) (users st))"
  by (simp add: mongo_def)

lemma filter_active_only: "filter (matches active_only) cat = filter isActive cat"
  by (induction cat) (simp_all add: matches_active_only)

section \<open>Trending order\<close>

lemma trending_pairs:
  assumes "i < j" "j < length (find_shops cat q [By_reviewCount, By_rating] n)"
  shows "reviewCount (find_shops cat q [By_reviewCount, By_rating] n ! j)
           < reviewCount (find_shops cat q [By_reviewCount, By_rating] n ! i) \<or>
         (reviewCount (find_shops cat q [By_reviewCount, By_rating] n ! j)
            = reviewCount (find_shops cat q [By_reviewCount, By_rating] n ! i) \<and>
          rating (find_shops cat q [By_reviewCount, By_rating] n ! j)
            \<le> rating (find_shops cat q [By_reviewCount, By_rating] n ! i))"
proof -
  let ?res = "find_shops cat q [By_reviewCount, By_rating] n"
  have "\<not> precedes [By_reviewCount, By_rating] (?res ! j) (?res ! i)"
    using sorted_find_shops[of "[By_reviewCount, By_rating]" cat q n] assms
    by (simp add: sorted_wrt_iff_nth_less)
  then show ?thesis
    by (auto simp: sort_value_def not_less)
qed

lemma trending_ties:
  "prefix (filter (\<lambda>s. reviewCount s = c \<and> rating s = r)
             (find_shops cat q [By_reviewCount, By_rating] n))
          (filter (\<lambda>s. reviewCount s = c \<and> rating s = r) (filter (matches q) cat))"
proof -
  let ?P = "\<lambda>s. reviewCount s = c \<and> rating s = r"
  let ?ys = "stable_sort (precedes [By_reviewCount, By_rating]) (filter (matches q) cat)"
  have "filter ?P ?ys = filter ?P (filter (matches q) cat)"
    by (rule filter_stable_sort) (simp add: sort_value_def)
  moreover have "prefix (filter ?P (take n ?ys)) (filter ?P ?ys)"
    by (rule filter_mono_prefix) (rule take_is_prefix)
  ultimately show ?thesis
    by (simp add: find_shops_def)
qed

lemma small_store_trending:
  "find_shops (shops small_store) active_only [By_reviewCount, By_rating] 12
     = [shop_c, shop_b, shop_a, shop_d]"
  by (simp add: find_shops_def stable_sort_def matches_def active_only_def sort_value_def
      example_defs)

text \<open>
  Claim C9. \<open>GET /trending\<close> answers with the active shops sorted by review count
  descending, then rating descending, cut to 12 (\<open>GET /sections\<close> runs the same query
  with limit 6). For any limit \<open>n\<close> the result holds only active shops and
  \<open>min n\<close> (number of active shops) of them; of two shops in the result the later one
  has the smaller review count, or the same review count and a rating that is not
  higher; and the shops that agree on review count and rating appear in catalog order
  (the result restricted to them is an initial segment of the catalog restricted to
  them). The tie rule rests on the stable sort the repository contract asks of the store.
\<close>

theorem trending_order:
  "get_trending (mongo st)
     = Success (find_shops (shops st) active_only [By_reviewCount, By_rating] 12) \<and>
   (let res = find_shops (shops st) active_only [By_reviewCount, By_rating] n in
      set res \<subseteq> {s \<in> set (shops st). isActive s} \<and>
      length res = min n (length (filter isActive (shops st))) \<and>
      (\<forall>i j. i < j \<and> j < length res \<longrightarrow>
         reviewCount (res ! j) < reviewCount (res ! i) \<or>
         (reviewCount (res ! j) = reviewCount (res ! i) \<and> rating (res ! j) \<le> rating (res ! i))) \<and>
      (\<forall>c r. prefix (filter (\<lambda>s. reviewCount s = c \<and> rating s = r) res)
                    (filter (\<lambda>s. reviewCount s = c \<and> rating s = r)
                       (filter isActive (shops st)))))"
proof -
  let ?res = "find_shops (shops st) active_only [By_reviewCount, By_rating] n"
  have a: "get_trending (mongo st)
     = Success (find_shops (shops st) active_only [By_reviewCount, By_rating] 12)"
    by (simp add: get_trending_def Shop_find_mongo)
  have b: "set ?res \<subseteq> {s \<in> set (shops st). isActive s}"
    using set_find_shops[of "shops st" active_only] by (simp add: matches_active_only)
  have c: "length ?res = min n (length (filter isActive (shops st)))"
    by (simp add: length_find_shops filter_active_only)
  have d: "\<forall>i j. i < j \<and> j < length ?res \<longrightarrow>
         reviewCount (?res ! j) < reviewCount (?res ! i) \<or>
         (reviewCount (?res ! j) = reviewCount (?res ! i) \<and> rating (?res ! j) \<le> rating (?res ! i))"
    using trending_pairs by blast
  have e: "\<forall>c r. prefix (filter (\<lambda>s. reviewCount s = c \<and> rating s = r) ?res)
                    (filter (\<lambda>s. reviewCount s = c \<and> rating s = r)
                       (filter isActive (shops st)))"
    using trending_ties[of _ _ "shops st" active_only n] by (simp only: filter_active_only) blast
  from a b c d e show ?thesis
    by (simp only: Let_def) blast
qed

theorem trending_order_witness:
  "get_trending (mongo small_store) = Success [shop_c, shop_b, shop_a, shop_d] \<and>
   (2::nat) < 3 \<and> 3 < length [shop_c, shop_b, shop_a, shop_d] \<and>
   reviewCount shop_d = reviewCount shop_a \<and> rating shop_d \<le> rating shop_a \<and>
   prefix [shop_a, shop_d]
     (filter (\<lambda>s. reviewCount s = 10 \<and> rating s = Some 4) (filter isActive (shops small_store)))"
proof -
  note t = trending_order[of small_store 12, unfolded small_store_trending Let_def]
  from t have w1: "get_trending (mongo small_store) = Success [shop_c, shop_b, shop_a, shop_d]"
    by blast
  from t have "prefix (filter (\<lambda>s. reviewCount s = 10 \<and> rating s = Some 4)
      [shop_c, shop_b, shop_a, shop_d])
      (filter (\<lambda>s. reviewCount s = 10 \<and> rating s = Some 4) (filter isActive (shops small_store)))"
    by blast
  moreover have "filter (\<lambda>s. reviewCount s = 10 \<and> rating s = Some 4)
      [shop_c, shop_b, shop_a, shop_d] = [shop_a, shop_d]"
    by (simp add: shop_a_def shop_b_def shop_c_def shop_d_def)
  ultimately have w2: "prefix [shop_a, shop_d]
     (filter (\<lambda>s. reviewCount s = 10 \<and> rating s = Some 4) (filter isActive (shops small_store)))"
    by simp
  have w3: "reviewCount shop_d = reviewCount shop_a \<and> rating shop_d \<le> rating shop_a"
    by (simp add: shop_a_def shop_d_def)
  from w1 w2 w3 show ?thesis by simp
qed

section \<open>GET /sections\<close>

lemma getPersonalizedShops_mongo:
  "getPersonalizedShops (mongo st) p =
     (case collect_tags [] (style p) of
        Inl e \<Rightarrow> Inl e
      | Inr tags \<Rightarrow>
          Inr (let found = find_shops (shops st) (personal_query p tags) [By_rating, By_reviewCount] 12
               in if length found < 6
                  then found @ sample (random st) (6 - length found)
                                 (filter (matches (backfill_query found)) (shops st))
                  else found))"
  by (simp add: getPersonalizedShops_def Shop_find_mongo Shop_aggregate_mongo Let_def
      split: sum.splits)

lemma distinct_backfilled:
  assumes "distinct (map sid cat)"
  shows "distinct (map sid (find_shops cat q fs n @
            sample rnd k (filter (matches (backfill_query (find_shops cat q fs n))) cat)))"
proof -
  let ?found = "find_shops cat q fs n"
  let ?pool = "filter (matches (backfill_query ?found)) cat"
  have 1: "distinct (map sid ?found)"
    using assms by (rule distinct_find_shops)
  have "distinct (map sid ?pool)"
    using assms by (rule distinct_map_filter)
  then have 2: "distinct (map sid (sample rnd k ?pool))"
    by (rule distinct_map_sample)
  have "\<forall>s \<in> set ?pool. sid s \<notin> set (map sid ?found)"
    by (simp add: matches_def backfill_query_def)
  then have 3: "\<forall>s \<in> set (sample rnd k ?pool). sid s \<notin> set (map sid ?found)"
    using set_sample[of rnd k ?pool] by blast
  from 1 2 3 show ?thesis
    by auto (metis imageI)
qed

lemma distinct_personalized:
  assumes "distinct (map sid (shops st))" "getPersonalizedShops (mongo st) p = Inr found"
  shows "distinct (map sid found)"
proof -
  from assms(2) obtain tags where
    f: "found = (let f = find_shops (shops st) (personal_query p tags) [By_rating, By_reviewCount] 12
               in if length f < 6
                  then f @ sample (random st) (6 - length f)
                                 (filter (matches (backfill_query f)) (shops st))
                  else f)"
    by (auto simp: getPersonalizedShops_mongo split: sum.splits)
  show ?thesis
    unfolding f Let_def
    using distinct_backfilled[OF assms(1)] distinct_find_shops[OF assms(1)]
    by simp
qed

lemma section_ids_simps:
  "section_ids (for_you_section xs) = map sid xs"
  "section_ids (trending_section xs) = map sid xs"
  "section_ids (new_section xs) = map sid xs"
  by (simp_all add: section_ids_def for_you_section_def trending_section_def new_section_def
      wrap_def comp_def)

lemma compose_sections_mongo:
  "compose_sections (mongo st) userId =
     (case sections_for_you (mongo st) userId of
        Inl e \<Rightarrow> Inl e
      | Inr s1 \<Rightarrow>
          Inr (s1 @ [trending_section (find_shops (shops st) active_only [By_reviewCount, By_rating] 6),
                     new_section (find_shops (shops st) active_only [By_createdAt] 6)]))"
  by (simp add: compose_sections_def Shop_find_mongo split: sum.splits)

lemma sections_for_you_cases:
  assumes "sections_for_you db userId = Inr s1"
  shows "(\<not> has_profile db userId \<and> s1 = []) \<or>
         (has_profile db userId \<and>
          (\<exists>i u p found. userId = Some i \<and> User_findById db i = Inr (Some u) \<and>
             preferences u = Some p \<and> getPersonalizedShops db p = Inr found \<and>
             s1 = [for_you_section found]))"
  using assms
  by (auto simp: sections_for_you_def has_profile_def split: option.splits sum.splits)

text \<open>
  Claim C1, as amended. \<open>GET /sections\<close> keeps no set of identifiers already placed:
  the three blocks query the catalog independently. What holds is uniqueness inside each
  section: when the catalog's identifiers are distinct, no section of a successful
  response lists a shop identifier twice (the For You backfill excludes the shops
  already selected through \<open>_id $nin\<close>).
\<close>

theorem sections_each_distinct:
  assumes "distinct (map sid (shops st))"
    and "get_sections (mongo st) userId = Success secs"
  shows "list_all (\<lambda>sec. distinct (section_ids sec)) secs"
proof -
  from assms(2) obtain s1 where
    s1: "sections_for_you (mongo st) userId = Inr s1"
    and secs: "secs = s1 @ [trending_section (find_shops (shops st) active_only [By_reviewCount, By_rating] 6),
                     new_section (find_shops (shops st) active_only [By_createdAt] 6)]"
    by (auto simp: get_sections_def compose_sections_mongo split: sum.splits)
  have "list_all (\<lambda>sec. distinct (section_ids sec)) s1"
    using sections_for_you_cases[OF s1] distinct_personalized[OF assms(1)]
    by (auto simp: section_ids_simps)
  moreover have "distinct (map sid (find_shops (shops st) active_only [By_reviewCount, By_rating] 6))"
    "distinct (map sid (find_shops (shops st) active_only [By_createdAt] 6))"
    using assms(1) by (rule distinct_find_shops)+
  ultimately show ?thesis
    by (simp add: secs section_ids_simps)
qed

lemma small_store_new:
  "find_shops (shops small_store) active_only [By_createdAt] 6 = [shop_d, shop_c, shop_b, shop_a]"
  by (simp add: find_shops_def stable_sort_def matches_def active_only_def sort_value_def
      example_defs)

lemma small_store_trending6:
  "find_shops (shops small_store) active_only [By_reviewCount, By_rating] 6
     = [shop_c, shop_b, shop_a, shop_d]"
  by (simp add: find_shops_def stable_sort_def matches_def active_only_def sort_value_def
      example_defs)

lemma collect_vintage: "collect_tags [] [''vintage''] = Inr [''Vintage'', ''Pre-Loved'', ''Thrift'']"
  by (simp add: get_property_def styleToTagMap_def)

lemma small_store_matched: "find_shops (shops small_store)
     (personal_query (default_preferences\<lparr>style := [''vintage'']\<rparr>) [''Vintage'', ''Pre-Loved'', ''Thrift''])
     [By_rating, By_reviewCount] 12 = [shop_b]"
  by code_simp

lemma small_store_backfill: "sample (random small_store) 5 (filter (matches (backfill_query [shop_b])) (shops small_store))
   = [shop_d, shop_a, shop_c]"
  by code_simp

lemma small_store_personal:
  "getPersonalizedShops (mongo small_store) (default_preferences\<lparr>style := [''vintage'']\<rparr>)
     = Inr [shop_b, shop_d, shop_a, shop_c]"
proof -
  have "style (default_preferences\<lparr>style := [''vintage'']\<rparr>) = [''vintage'']" by simp
  then show ?thesis
    by (simp add: getPersonalizedShops_mongo collect_vintage small_store_matched small_store_backfill Let_def del: collect_tags.simps)
qed


lemma small_store_users:
  "User_findById (mongo small_store) ''u1'' = Inr (Some user_vintage)"
  "User_findById (mongo small_store) ''u2'' = Inr (Some user_skipped)"
  by (simp_all add: User_findById_mongo small_store_def user_vintage_def user_skipped_def)

lemma small_store_for_you:
  "sections_for_you (mongo small_store) (Some ''u1'')
     = Inr [for_you_section [shop_b, shop_d, shop_a, shop_c]]"
proof -
  have "preferences user_vintage = Some (default_preferences\<lparr>style := [''vintage'']\<rparr>)"
    by (simp add: user_vintage_def)
  then show ?thesis
    by (simp add: sections_for_you_def small_store_users small_store_personal)
qed

lemma small_store_sections:
  "get_sections (mongo small_store) (Some ''u1'')
     = Success [for_you_section [shop_b, shop_d, shop_a, shop_c],
                trending_section [shop_c, shop_b, shop_a, shop_d],
                new_section [shop_d, shop_c, shop_b, shop_a]]"
  by (simp add: get_sections_def compose_sections_mongo small_store_for_you
      small_store_trending6 small_store_new)

lemma small_store_sections_anonymous:
  "get_sections (mongo small_store) None
     = Success [trending_section [shop_c, shop_b, shop_a, shop_d],
                new_section [shop_d, shop_c, shop_b, shop_a]]"
  by (simp add: get_sections_def compose_sections_mongo sections_for_you_def
      small_store_trending6 small_store_new)

lemma small_store_distinct: "distinct (map sid (shops small_store))"
  by (simp add: example_defs)

theorem sections_each_distinct_witness:
  "distinct (map sid (shops small_store)) \<and>
   get_sections (mongo small_store) (Some ''u1'')
     = Success [for_you_section [shop_b, shop_d, shop_a, shop_c],
                trending_section [shop_c, shop_b, shop_a, shop_d],
                new_section [shop_d, shop_c, shop_b, shop_a]] \<and>
   list_all (\<lambda>sec. distinct (section_ids sec))
     [for_you_section [shop_b, shop_d, shop_a, shop_c],
      trending_section [shop_c, shop_b, shop_a, shop_d],
      new_section [shop_d, shop_c, shop_b, shop_a]]"
  using sections_each_distinct[OF small_store_distinct small_store_sections]
    small_store_distinct small_store_sections
  by simp

text \<open>
  Claim C1 as stated fails: with a single active shop and an anonymous caller, that shop
  is returned both in Trending This Week and in Recently Added.
\<close>

theorem cross_section_duplicate:
  "get_sections (mongo one_shop_store) None
     = Success [trending_section [shop_a], new_section [shop_a]] \<and>
   \<not> cross_section_unique [trending_section [shop_a], new_section [shop_a]]"
proof -
  have "find_shops (shops one_shop_store) active_only [By_reviewCount, By_rating] 6 = [shop_a]"
    "find_shops (shops one_shop_store) active_only [By_createdAt] 6 = [shop_a]"
    by code_simp+
  then show ?thesis
    by (simp add: get_sections_def compose_sections_mongo sections_for_you_def
        cross_section_unique_def section_ids_simps)
qed

lemma for_you_title:
  "title (for_you_section xs) = ''For You''" "stype (for_you_section xs) = T_for_you"
  "title (trending_section xs) = ''Trending This Week''" "stype (trending_section xs) = T_trending"
  "title (new_section xs) = ''Recently Added''" "stype (new_section xs) = T_new"
  by (simp_all add: for_you_section_def trending_section_def new_section_def)

text \<open>
  Claim C4, as amended. A successful \<open>GET /sections\<close> returns its sections in the order
  For You, Trending This Week, Recently Added, where For You is present exactly when the
  caller is authenticated, the user is found and has preferences. Otherwise the response
  holds Trending This Week and Recently Added only: the handler has no anonymous
  "Recommended For You" block (that one belongs to \<open>GET /for-you\<close>).
\<close>

theorem sections_order:
  assumes "get_sections db userId = Success secs"
  shows "map title secs
           = (if has_profile db userId then [''For You''] else [])
               @ [''Trending This Week'', ''Recently Added''] \<and>
         map stype secs
           = (if has_profile db userId then [T_for_you] else []) @ [T_trending, T_new]"
proof -
  from assms obtain s1 t n where
    s1: "sections_for_you db userId = Inr s1"
    and secs: "secs = s1 @ [trending_section t] @ [new_section n]"
    by (auto simp: get_sections_def compose_sections_def split: sum.splits)
  from sections_for_you_cases[OF s1] show ?thesis
    by (auto simp: secs for_you_title)
qed

theorem sections_order_witness:
  "get_sections (mongo small_store) (Some ''u1'')
     = Success [for_you_section [shop_b, shop_d, shop_a, shop_c],
                trending_section [shop_c, shop_b, shop_a, shop_d],
                new_section [shop_d, shop_c, shop_b, shop_a]] \<and>
   has_profile (mongo small_store) (Some ''u1'') \<and>
   map title [for_you_section [shop_b, shop_d, shop_a, shop_c],
              trending_section [shop_c, shop_b, shop_a, shop_d],
              new_section [shop_d, shop_c, shop_b, shop_a]]
     = [''For You'', ''Trending This Week'', ''Recently Added'']"
proof -
  have hp: "has_profile (mongo small_store) (Some ''u1'')"
    by (simp add: has_profile_def small_store_users user_vintage_def)
  from sections_order[OF small_store_sections] hp small_store_sections show ?thesis
    by simp
qed

text \<open>
  Claim C4 as stated fails: for an anonymous caller the response has two sections, the
  first being Trending This Week.
\<close>

theorem anonymous_sections_no_first_slot:
  "get_sections (mongo small_store) None
     = Success [trending_section [shop_c, shop_b, shop_a, shop_d],
                new_section [shop_d, shop_c, shop_b, shop_a]] \<and>
   map title [trending_section [shop_c, shop_b, shop_a, shop_d],
              new_section [shop_d, shop_c, shop_b, shop_a]]
     = [''Trending This Week'', ''Recently Added'']"
  by (simp add: small_store_sections_anonymous for_you_title)

text \<open>
  Claim C7. If any read that \<open>GET /sections\<close> performs throws (the user lookup, the
  personalized query, the backfill sample, the Trending query or the Recently Added
  query), the response is the failure with status 500 and the message of the handler's
  \<open>catch\<close>; a failure carries no section, also when the For You block had been
  computed before. Each read is issued once; nothing is retried.
\<close>

theorem sections_read_failure:
  assumes "(\<exists>i e. userId = Some i \<and> User_findById db i = Inl e) \<or>
     (\<exists>i u p tags e. userId = Some i \<and> User_findById db i = Inr (Some u) \<and>
        preferences u = Some p \<and> collect_tags [] (style p) = Inr tags \<and>
        Shop_find db (personal_query p tags) [By_rating, By_reviewCount] 12 = Inl e) \<or>
     (\<exists>i u p tags found e. userId = Some i \<and> User_findById db i = Inr (Some u) \<and>
        preferences u = Some p \<and> collect_tags [] (style p) = Inr tags \<and>
        Shop_find db (personal_query p tags) [By_rating, By_reviewCount] 12 = Inr found \<and>
        length found < 6 \<and>
        Shop_aggregate db (backfill_query found) (6 - length found) = Inl e) \<or>
     (\<exists>e. Shop_find db active_only [By_reviewCount, By_rating] 6 = Inl e) \<or>
     (\<exists>e. Shop_find db active_only [By_createdAt] 6 = Inl e)"
  shows "get_sections db userId = Failure 500 ''Failed to get explore sections''"
proof -
  have "\<exists>e. compose_sections db userId = Inl e"
    using assms
  proof (elim disjE exE conjE)
    fix i e
    assume "userId = Some i" "User_findById db i = Inl e"
    then show ?thesis
      by (simp add: compose_sections_def sections_for_you_def)
  next
    fix i u p tags e
    assume "userId = Some i" "User_findById db i = Inr (Some u)" "preferences u = Some p"
      "collect_tags [] (style p) = Inr tags"
      "Shop_find db (personal_query p tags) [By_rating, By_reviewCount] 12 = Inl e"
    then show ?thesis
      by (simp add: compose_sections_def sections_for_you_def getPersonalizedShops_def)
  next
    fix i u p tags found e
    assume "userId = Some i" "User_findById db i = Inr (Some u)" "preferences u = Some p"
      "collect_tags [] (style p) = Inr tags"
      "Shop_find db (personal_query p tags) [By_rating, By_reviewCount] 12 = Inr found"
      "length found < 6"
      "Shop_aggregate db (backfill_query found) (6 - length found) = Inl e"
    then show ?thesis
      by (simp add: compose_sections_def sections_for_you_def getPersonalizedShops_def)
  next
    fix e
    assume "Shop_find db active_only [By_reviewCount, By_rating] 6 = Inl e"
    then show ?thesis
      by (simp add: compose_sections_def split: sum.splits)
  next
    fix e
    assume "Shop_find db active_only [By_createdAt] 6 = Inl e"
    then show ?thesis
      by (simp add: compose_sections_def split: sum.splits)
  qed
  then show ?thesis
    by (auto simp: get_sections_def)
qed

lemma trending_down_reads:
  "User_findById trending_down = User_findById (mongo small_store)"
  "Shop_aggregate trending_down = Shop_aggregate (mongo small_store)"
  "Shop_find trending_down q [By_rating, By_reviewCount] n
     = Shop_find (mongo small_store) q [By_rating, By_reviewCount] n"
  "Shop_find trending_down q [By_reviewCount, By_rating] n = Inl DbError"
  by (simp_all add: trending_down_def)

lemma trending_down_for_you:
  "sections_for_you trending_down (Some ''u1'')
     = Inr [for_you_section [shop_b, shop_d, shop_a, shop_c]]"
proof -
  have "getPersonalizedShops trending_down p = getPersonalizedShops (mongo small_store) p" for p
    by (simp add: getPersonalizedShops_def trending_down_reads split: sum.splits)
  then have "sections_for_you trending_down (Some ''u1'')
     = sections_for_you (mongo small_store) (Some ''u1'')"
    by (simp add: sections_for_you_def trending_down_reads split: sum.splits option.splits)
  then show ?thesis
    by (simp add: small_store_for_you)
qed

theorem sections_read_failure_witness:
  "sections_for_you trending_down (Some ''u1'')
     = Inr [for_you_section [shop_b, shop_d, shop_a, shop_c]] \<and>
   Shop_find trending_down active_only [By_reviewCount, By_rating] 6 = Inl DbError \<and>
   get_sections trending_down (Some ''u1'') = Failure 500 ''Failed to get explore sections''"
proof -
  have f: "Shop_find trending_down active_only [By_reviewCount, By_rating] 6 = Inl DbError"
    by (rule trending_down_reads)
  then have "get_sections trending_down (Some ''u1'') = Failure 500 ''Failed to get explore sections''"
    by (intro sections_read_failure) blast
  with f trending_down_for_you show ?thesis
    by simp
qed

section \<open>Minimum section size\<close>

lemma get_property_regular:
  "\<not> inherited k \<Longrightarrow>
   get_property tbl k = (case map_of tbl k of None \<Rightarrow> Undefined | Some v \<Rightarrow> Own v)"
proof -
  assume "\<not> inherited k"
  then have "map_of object_prototype k = None" and "k \<noteq> ''__proto__''"
    by (simp_all add: inherited_def map_of_eq_None_iff)
  then show ?thesis
    by (simp add: get_property_def split: option.splits)
qed

lemma collect_tags_regular:
  "list_all (\<lambda>s. \<not> inherited s) ss \<Longrightarrow> \<exists>tags. collect_tags acc ss = Inr tags"
proof (induction ss arbitrary: acc)
  case Nil
  then show ?case by simp
next
  case (Cons s ss)
  then have "\<not> inherited s" and rest: "list_all (\<lambda>s. \<not> inherited s) ss"
    by simp_all
  then show ?case
    using Cons.IH[OF rest] by (simp add: get_property_regular split: option.splits)
qed

lemma collect_tags_inherited:
  "\<not> list_all (\<lambda>s. \<not> inherited s) ss \<Longrightarrow> collect_tags acc ss = Inl TypeError"
proof (induction ss arbitrary: acc)
  case Nil
  then show ?case by simp
next
  case (Cons s ss)
  show ?case
  proof (cases "inherited s")
    case True
    then show ?thesis
      by (auto simp: inherited_def get_property_def styleToTagMap_def object_prototype_def)
  next
    case False
    with Cons show ?thesis
      by (simp add: get_property_regular split: option.splits)
  qed
qed

lemma count_selected:
  assumes "distinct (map f xs)" "set ys \<subseteq> set xs" "distinct (map f ys)"
  shows "length (filter (\<lambda>x. f x \<in> f ` set ys) xs) = length ys"
proof -
  have dx: "distinct xs" and dy: "distinct ys" and inj: "inj_on f (set xs)"
    using assms by (auto simp: distinct_map)
  have "{x \<in> set xs. f x \<in> f ` set ys} = set ys"
    using assms(2) inj by (auto simp: inj_on_def)
  then have "length (filter (\<lambda>x. f x \<in> f ` set ys) xs) = card (set ys)"
    using dx by (simp add: distinct_length_filter Int_def conj_commute)
  then show ?thesis
    using dy by (simp add: distinct_card)
qed

lemma personal_found_active:
  "set (find_shops cat (personal_query p tags) fs n) \<subseteq> set (filter isActive cat)"
  using set_find_shops[of cat "personal_query p tags" fs n]
  by (auto simp: matches_def personal_query_def)

lemma backfill_pool:
  "filter (matches (backfill_query found)) cat
     = filter (\<lambda>s. sid s \<notin> sid ` set found) (filter isActive cat)"
  by (induction cat) (auto simp: matches_def backfill_query_def)

lemma length_backfill_pool:
  assumes "distinct (map sid cat)" "set found \<subseteq> set (filter isActive cat)"
    "distinct (map sid found)"
  shows "length (filter (matches (backfill_query found)) cat)
           = length (filter isActive cat) - length found"
proof -
  let ?act = "filter isActive cat"
  have "distinct (map sid ?act)"
    using assms(1) by (rule distinct_map_filter)
  then have "length (filter (\<lambda>s. sid s \<in> sid ` set found) ?act) = length found"
    using assms(2,3) by (rule count_selected)
  moreover have "length (filter (\<lambda>s. sid s \<in> sid ` set found) ?act)
      + length (filter (\<lambda>s. \<not> sid s \<in> sid ` set found) ?act) = length ?act"
    by (rule sum_length_filter_compl)
  ultimately show ?thesis
    by (simp add: backfill_pool)
qed


lemma length_found_le:
  assumes "distinct (map sid cat)"
  shows "length (find_shops cat (personal_query p tags) fs n) \<le> length (filter isActive cat)"
proof -
  let ?found = "find_shops cat (personal_query p tags) fs n"
  let ?act = "filter isActive cat"
  have "distinct (map sid ?act)"
    using assms by (rule distinct_map_filter)
  moreover have "set ?found \<subseteq> set ?act"
    by (rule personal_found_active)
  moreover have "distinct (map sid ?found)"
    using assms by (rule distinct_find_shops)
  ultimately have "length (filter (\<lambda>x. sid x \<in> sid ` set ?found) ?act) = length ?found"
    by (rule count_selected)
  then show ?thesis
    using length_filter_le[of "\<lambda>x. sid x \<in> sid ` set ?found" ?act] by simp
qed

lemma exhausted:
  assumes "distinct (map sid cat)" "set res \<subseteq> set (filter isActive cat)"
    "distinct (map sid res)" "length res = length (filter isActive cat)"
  shows "set (filter isActive cat) \<subseteq> set res"
proof -
  have "distinct res"
    using assms(3) by (simp add: distinct_map)
  moreover have "distinct (filter isActive cat)"
    using assms(1) by (simp add: distinct_map)
  ultimately have "card (set res) = card (set (filter isActive cat))"
    using assms(4) by (metis distinct_card)
  with assms(2) have "set res = set (filter isActive cat)"
    by (intro card_subset_eq) simp_all
  then show ?thesis by simp
qed

lemma personalized_shape:
  assumes d: "distinct (map sid (shops st))"
    and r: "getPersonalizedShops (mongo st) p = Inr res"
  shows "\<exists>tags extra.
     collect_tags [] (style p) = Inr tags \<and>
     (let found = find_shops (shops st) (personal_query p tags) [By_rating, By_reviewCount] 12 in
        res = found @ extra \<and>
        set extra \<subseteq> {s \<in> set (shops st). isActive s \<and> sid s \<notin> sid ` set found} \<and>
        length extra
          = (if length found < 6
             then min (6 - length found) (length (filter isActive (shops st)) - length found)
             else 0) \<and>
        (6 \<le> length (filter isActive (shops st)) \<longrightarrow> 6 \<le> length res) \<and>
        (length res < 6 \<longrightarrow> {s \<in> set (shops st). isActive s} \<subseteq> set res))"
proof -
  from r obtain tags where t: "collect_tags [] (style p) = Inr tags"
    by (auto simp: getPersonalizedShops_mongo split: sum.splits)
  let ?found = "find_shops (shops st) (personal_query p tags) [By_rating, By_reviewCount] 12"
  let ?pool = "filter (matches (backfill_query ?found)) (shops st)"
  let ?A = "length (filter isActive (shops st))"
  define extra where
    "extra = (if length ?found < 6 then sample (random st) (6 - length ?found) ?pool else [])"
  have res: "res = ?found @ extra"
    using r t by (auto simp: getPersonalizedShops_mongo extra_def Let_def split: if_splits)
  have fa: "set ?found \<subseteq> set (filter isActive (shops st))"
    by (rule personal_found_active)
  have fd: "distinct (map sid ?found)"
    using d by (rule distinct_find_shops)
  have pool: "length ?pool = ?A - length ?found"
    using d fa fd by (rule length_backfill_pool)
  have kA: "length ?found \<le> ?A"
    using d by (rule length_found_le)
  have 1: "set extra \<subseteq> {s \<in> set (shops st). isActive s \<and> sid s \<notin> sid ` set ?found}"
    using set_sample[of "random st" "6 - length ?found" ?pool]
    by (auto simp: extra_def backfill_pool)
  have 2: "length extra
      = (if length ?found < 6 then min (6 - length ?found) (?A - length ?found) else 0)"
    by (simp add: extra_def length_sample pool)
  have 3: "6 \<le> ?A \<longrightarrow> 6 \<le> length res"
    using kA by (auto simp: res 2)
  have rd: "distinct (map sid res)"
    using d r by (rule distinct_personalized)
  have ra: "set res \<subseteq> set (filter isActive (shops st))"
    using fa 1 by (auto simp: res)
  have 4: "length res < 6 \<longrightarrow> {s \<in> set (shops st). isActive s} \<subseteq> set res"
  proof
    assume "length res < 6"
    then have "length res = ?A"
      using kA by (auto simp: res 2 split: if_splits)
    with d ra rd have "set (filter isActive (shops st)) \<subseteq> set res"
      by (rule exhausted)
    then show "{s \<in> set (shops st). isActive s} \<subseteq> set res"
      by auto
  qed
  from t res 1 2 3 4 show ?thesis
    by (simp only: Let_def) blast
qed

lemma items_length:
  "length (items (for_you_section xs)) = length xs"
  "length (items (trending_section xs)) = length xs"
  "length (items (new_section xs)) = length xs"
  by (simp_all add: for_you_section_def trending_section_def new_section_def)

text \<open>
  The Content-Match Scorer and the sections of \<open>GET /sections\<close>: the shape of the
  backfilled result and the minimum size of each section.
\<close>

lemma personalized_minimum:
  assumes d: "distinct (map sid (shops st))"
    and s: "list_all (\<lambda>s. \<not> inherited s) (style p)"
  shows "\<exists>tags extra.
     collect_tags [] (style p) = Inr tags \<and>
     (let found = find_shops (shops st) (personal_query p tags) [By_rating, By_reviewCount] 12;
          res = found @ extra in
        getPersonalizedShops (mongo st) p = Inr res \<and>
        set extra \<subseteq> {s \<in> set (shops st). isActive s \<and> sid s \<notin> sid ` set found} \<and>
        length extra
          = (if length found < 6
             then min (6 - length found) (length (filter isActive (shops st)) - length found)
             else 0) \<and>
        (6 \<le> length (filter isActive (shops st)) \<longrightarrow> 6 \<le> length res) \<and>
        (length res < 6 \<longrightarrow> {s \<in> set (shops st). isActive s} \<subseteq> set res)) \<and>
     (6 \<le> length (filter isActive (shops st)) \<and> get_sections (mongo st) userId = Success secs
        \<longrightarrow> list_all (\<lambda>sec. 6 \<le> length (items sec)) secs)"
proof -
  from collect_tags_regular[OF s] obtain tags where "collect_tags [] (style p) = Inr tags"
    by blast
  then obtain res where r: "getPersonalizedShops (mongo st) p = Inr res"
    by (simp add: getPersonalizedShops_mongo)
  from personalized_shape[OF d r] obtain tags extra where
    t: "collect_tags [] (style p) = Inr tags"
    and sh: "let found = find_shops (shops st) (personal_query p tags) [By_rating, By_reviewCount] 12 in
        res = found @ extra \<and>
        set extra \<subseteq> {s \<in> set (shops st). isActive s \<and> sid s \<notin> sid ` set found} \<and>
        length extra
          = (if length found < 6
             then min (6 - length found) (length (filter isActive (shops st)) - length found)
             else 0) \<and>
        (6 \<le> length (filter isActive (shops st)) \<longrightarrow> 6 \<le> length res) \<and>
        (length res < 6 \<longrightarrow> {s \<in> set (shops st). isActive s} \<subseteq> set res)"
    by blast
  have secs: "6 \<le> length (filter isActive (shops st)) \<and> get_sections (mongo st) userId = Success secs
        \<longrightarrow> list_all (\<lambda>sec. 6 \<le> length (items sec)) secs"
  proof
    assume a: "6 \<le> length (filter isActive (shops st)) \<and> get_sections (mongo st) userId = Success secs"
    then obtain s1 where
      s1: "sections_for_you (mongo st) userId = Inr s1"
      and ss: "secs = s1 @ [trending_section (find_shops (shops st) active_only [By_reviewCount, By_rating] 6),
                     new_section (find_shops (shops st) active_only [By_createdAt] 6)]"
      by (auto simp: get_sections_def compose_sections_mongo split: sum.splits)
    have "list_all (\<lambda>sec. 6 \<le> length (items sec)) s1"
      using sections_for_you_cases[OF s1] personalized_shape[OF d] a
      by (fastforce simp: items_length Let_def)
    then show "list_all (\<lambda>sec. 6 \<le> length (items sec)) secs"
      using a by (simp add: ss items_length length_find_shops filter_active_only)
  qed
  from t sh r secs show ?thesis
    by (simp only: Let_def) blast
qed


lemma six_store_matched: "find_shops (shops six_store)
     (personal_query (default_preferences\<lparr>style := [''vintage'']\<rparr>) [''Vintage'', ''Pre-Loved'', ''Thrift''])
     [By_rating, By_reviewCount] 12 = [shop_b]"
  by code_simp

lemma six_store_backfill:
  "sample (random six_store) 5 (filter (matches (backfill_query [shop_b])) (shops six_store))
   = [shop_c, shop_a, shop_g, shop_d, shop_f]"
  by code_simp

lemma six_store_personal:
  "getPersonalizedShops (mongo six_store) (default_preferences\<lparr>style := [''vintage'']\<rparr>)
     = Inr [shop_b, shop_c, shop_a, shop_g, shop_d, shop_f]"
proof -
  have "style (default_preferences\<lparr>style := [''vintage'']\<rparr>) = [''vintage'']" by simp
  then show ?thesis
    by (simp add: getPersonalizedShops_mongo collect_vintage six_store_matched six_store_backfill
        Let_def del: collect_tags.simps)
qed

lemma vintage_regular:
  "list_all (\<lambda>s. \<not> inherited s) (style (default_preferences\<lparr>style := [''vintage'']\<rparr>))"
  by (simp add: inherited_def object_prototype_def)

lemma six_store_distinct: "distinct (map sid (shops six_store))"
  by (simp add: example_defs)

section \<open>GET /for-you\<close>

lemma get_for_you_cases:
  assumes "get_for_you db (Some i) = Success sec"
  shows "\<exists>u p found. User_findById db i = Inr (Some u) \<and> preferences u = Some p \<and>
           getPersonalizedShops db p = Inr found \<and> sec = personal_section (Some p) found"
  using assms
  by (auto simp: get_for_you_def split: sum.splits option.splits)

lemma personal_items:
  "list_all (\<lambda>it. reason it = ''Matches your '' @ first_style p @ '' vibe'' \<and>
                  matchScore it = 85 / 100 \<and> basedOn it = Style)
     (items (personal_section p found))"
  by (simp add: personal_section_def wrap_def list_all_iff)

text \<open>
  Claim C2, as amended. \<open>getPersonalizedShops\<close> returns one flat list, and the
  authenticated branch of \<open>GET /for-you\<close> wraps every shop of it the same way: each
  item, matched or backfilled, carries the reason "Matches your <first style, or
  \<open>style\<close>> vibe", matchScore 0.85 and basedOn = style.
\<close>

theorem for_you_items_tagged_alike:
  assumes "get_for_you db (Some i) = Success sec"
  shows "\<exists>u p found.
           User_findById db i = Inr (Some u) \<and> preferences u = Some p \<and>
           getPersonalizedShops db p = Inr found \<and>
           map shop (items sec) = found \<and>
           list_all (\<lambda>it. reason it = ''Matches your '' @ first_style (Some p) @ '' vibe'' \<and>
                           matchScore it = 85 / 100 \<and> basedOn it = Style)
             (items sec)"
proof -
  from get_for_you_cases[OF assms] obtain u p found where
    "User_findById db i = Inr (Some u)" "preferences u = Some p"
    "getPersonalizedShops db p = Inr found" and sec: "sec = personal_section (Some p) found"
    by blast
  moreover have "map shop (items sec) = found"
    by (simp add: sec personal_section_def wrap_def comp_def)
  moreover have "list_all (\<lambda>it. reason it = ''Matches your '' @ first_style (Some p) @ '' vibe'' \<and>
                           matchScore it = 85 / 100 \<and> basedOn it = Style) (items sec)"
    unfolding sec by (rule personal_items)
  ultimately show ?thesis by blast
qed

lemma one_shop_store_users:
  "User_findById (mongo one_shop_store) ''u1'' = Inr (Some user_vintage)"
  by (simp add: User_findById_mongo one_shop_store_def user_vintage_def)

lemma one_shop_matched:
  "find_shops (shops one_shop_store)
     (personal_query (default_preferences\<lparr>style := [''vintage'']\<rparr>)
        [''Vintage'', ''Pre-Loved'', ''Thrift''])
     [By_rating, By_reviewCount] 12 = []"
  by code_simp

lemma one_shop_backfill:
  "sample (random one_shop_store) 6 (filter (matches (backfill_query [])) (shops one_shop_store))
     = [shop_a]"
  by code_simp

lemma one_shop_personal:
  "getPersonalizedShops (mongo one_shop_store) (default_preferences\<lparr>style := [''vintage'']\<rparr>)
     = Inr [shop_a]"
proof -
  have "style (default_preferences\<lparr>style := [''vintage'']\<rparr>) = [''vintage'']" by simp
  then show ?thesis
    by (simp add: getPersonalizedShops_mongo collect_vintage one_shop_matched one_shop_backfill
        Let_def del: collect_tags.simps)
qed

lemma one_shop_for_you:
  "get_for_you (mongo one_shop_store) (Some ''u1'')
     = Success (personal_section (Some (default_preferences\<lparr>style := [''vintage'']\<rparr>)) [shop_a])"
proof -
  have "preferences user_vintage = Some (default_preferences\<lparr>style := [''vintage'']\<rparr>)"
    by (simp add: user_vintage_def)
  then show ?thesis
    by (simp add: get_for_you_def one_shop_store_users one_shop_personal)
qed

text \<open>
  Claim C2 as stated fails: the only shop is tagged Budget, the user's style is vintage,
  so the content-match query returns no shop and the one item of the response is
  backfilled; it carries the style reason, matchScore 0.85 and basedOn = style.
\<close>

theorem backfilled_item_tagged_style:
  "find_shops (shops one_shop_store)
     (personal_query (default_preferences\<lparr>style := [''vintage'']\<rparr>)
        [''Vintage'', ''Pre-Loved'', ''Thrift''])
     [By_rating, By_reviewCount] 12 = [] \<and>
   get_for_you (mongo one_shop_store) (Some ''u1'')
     = Success \<lparr>title = ''For You'', subtitle = ''Based on your style preferences'',
                stype = T_for_you,
                items = [\<lparr>shop = shop_a, reason = ''Matches your vintage vibe'',
                          matchScore = 85 / 100, basedOn = Style\<rparr>]\<rparr>"
  by (simp add: one_shop_matched one_shop_for_you personal_section_def wrap_def first_style_def)

theorem for_you_items_tagged_alike_witness:
  "get_for_you (mongo one_shop_store) (Some ''u1'')
     = Success (personal_section (Some (default_preferences\<lparr>style := [''vintage'']\<rparr>)) [shop_a]) \<and>
   list_all (\<lambda>it. reason it = ''Matches your vintage vibe'' \<and> matchScore it = 85 / 100 \<and>
                   basedOn it = Style)
     (items (personal_section (Some (default_preferences\<lparr>style := [''vintage'']\<rparr>)) [shop_a]))"
proof -
  from for_you_items_tagged_alike[OF one_shop_for_you]
  have "list_all (\<lambda>it. reason it = ''Matches your '' @ first_style (Some (default_preferences\<lparr>style := [''vintage'']\<rparr>)) @ '' vibe'' \<and>
                           matchScore it = 85 / 100 \<and> basedOn it = Style)
          (items (personal_section (Some (default_preferences\<lparr>style := [''vintage'']\<rparr>)) [shop_a]))"
    by (auto simp: one_shop_store_users user_vintage_def)
  then show ?thesis
    using one_shop_for_you by (simp add: first_style_def)
qed


lemma personal_query_empty:
  "favoriteLocations p = [] \<Longrightarrow> personal_query p [] = active_only"
  by (simp add: personal_query_def active_only_def)

lemma short_find_is_all:
  assumes "length (find_shops cat q fs 12) < 6"
  shows "set (find_shops cat q fs 12) = set (filter (matches q) cat)"
proof -
  have "length (filter (matches q) cat) < 12"
    using assms by (simp add: length_find_shops)
  then have "find_shops cat q fs 12 = stable_sort (precedes fs) (filter (matches q) cat)"
    by (simp add: find_shops_def length_stable_sort)
  then show ?thesis
    by (simp add: set_stable_sort)
qed

lemma no_backfill_without_filter:
  assumes "length (find_shops cat active_only fs 12) < 6"
  shows "filter (matches (backfill_query (find_shops cat active_only fs 12))) cat = []"
proof -
  have "set (find_shops cat active_only fs 12) = set (filter isActive cat)"
    using short_find_is_all[OF assms] by (simp add: filter_active_only)
  then show ?thesis
    by (auto simp: backfill_pool filter_empty_conv)
qed

lemma sample_Nil: "sample rnd n [] = []"
  by (cases n) simp_all

lemma empty_profile_shops:
  assumes "style p = []" "favoriteLocations p = []"
  shows "getPersonalizedShops (mongo st) p
           = Inr (find_shops (shops st) active_only [By_rating, By_reviewCount] 12)"
  using assms no_backfill_without_filter[of "shops st" "[By_rating, By_reviewCount]"]
  by (simp add: getPersonalizedShops_mongo personal_query_empty Let_def sample_Nil)

text \<open>
  Claim C3, as amended. For an authenticated user whose profile has no style vibes and
  no favorite locations, the For-You query carries neither restriction, but the request
  does not take the anonymous path: it returns the active shops sorted by rating
  descending, then review count descending, cut to 12 (the backfill finds nothing left
  to add), each with reason "Matches your style vibe", matchScore 0.85 and
  basedOn = style. Only a request without caller identity returns a random sample of 12
  active shops with reason "Popular in your area", matchScore 0.7 and basedOn = trending.
\<close>

theorem empty_profile_for_you:
  assumes "User_findById (mongo st) i = Inr (Some u)" "preferences u = Some p"
    and "style p = []" "favoriteLocations p = []"
  shows "get_for_you (mongo st) (Some i)
           = Success \<lparr>title = ''For You'', subtitle = ''Based on your style preferences'',
                      stype = T_for_you,
                      items = map (wrap ''Matches your style vibe'' (85 / 100) Style)
                                (find_shops (shops st) active_only [By_rating, By_reviewCount] 12)\<rparr> \<and>
         get_for_you (mongo st) None
           = Success \<lparr>title = ''Recommended For You'',
                      subtitle = ''Sign up to get personalized picks'', stype = T_for_you,
                      items = map (wrap ''Popular in your area'' (7 / 10) Trending)
                                (sample (random st) 12 (filter isActive (shops st)))\<rparr>"
proof -
  have "get_for_you (mongo st) (Some i)
      = Success (personal_section (Some p)
          (find_shops (shops st) active_only [By_rating, By_reviewCount] 12))"
    using assms by (simp add: get_for_you_def empty_profile_shops)
  moreover have "first_style (Some p) = ''style''"
    using assms(3) by (simp add: first_style_def)
  moreover have "get_for_you (mongo st) None
      = Success (anonymous_section (sample (random st) 12 (filter isActive (shops st))))"
    by (simp add: get_for_you_def Shop_aggregate_mongo filter_active_only)
  ultimately show ?thesis
    by (simp add: personal_section_def anonymous_section_def)
qed

lemma small_store_by_rating:
  "find_shops (shops small_store) active_only [By_rating, By_reviewCount] 12
     = [shop_b, shop_a, shop_d, shop_c]"
  by code_simp

lemma small_store_sample:
  "sample (random small_store) 12 (filter isActive (shops small_store))
     = [shop_a, shop_d, shop_b, shop_c]"
  by code_simp

theorem empty_profile_for_you_witness:
  "User_findById (mongo small_store) ''u2'' = Inr (Some user_skipped) \<and>
   preferences user_skipped = Some default_preferences \<and>
   style default_preferences = [] \<and> favoriteLocations default_preferences = [] \<and>
   get_for_you (mongo small_store) (Some ''u2'')
     = Success \<lparr>title = ''For You'', subtitle = ''Based on your style preferences'',
                stype = T_for_you,
                items = map (wrap ''Matches your style vibe'' (85 / 100) Style)
                          [shop_b, shop_a, shop_d, shop_c]\<rparr>"
proof -
  have 1: "User_findById (mongo small_store) ''u2'' = Inr (Some user_skipped)"
    by (rule small_store_users)
  have 2: "preferences user_skipped = Some default_preferences"
    by (simp add: user_skipped_def)
  have 3: "style default_preferences = []" "favoriteLocations default_preferences = []"
    by (simp_all add: default_preferences_def)
  from empty_profile_for_you[OF 1 2 3] 1 2 3 show ?thesis
    by (simp add: small_store_by_rating)
qed

text \<open>
  Claim C3 as stated fails: for the user who skipped onboarding (default preferences) the
  response is the rating-sorted list tagged with basedOn = style, not the random sample
  tagged "Popular in your area" that the anonymous request gets.
\<close>

theorem empty_profile_not_anonymous:
  "style default_preferences = [] \<and> favoriteLocations default_preferences = [] \<and>
   get_for_you (mongo small_store) (Some ''u2'')
     = Success (personal_section (Some default_preferences) [shop_b, shop_a, shop_d, shop_c]) \<and>
   get_for_you (mongo small_store) None
     = Success (anonymous_section [shop_a, shop_d, shop_b, shop_c]) \<and>
   map basedOn (items (personal_section (Some default_preferences) [shop_b, shop_a, shop_d, shop_c]))
     = [Style, Style, Style, Style] \<and>
   map reason (items (personal_section (Some default_preferences) [shop_b, shop_a, shop_d, shop_c]))
     = [''Matches your style vibe'', ''Matches your style vibe'', ''Matches your style vibe'',
        ''Matches your style vibe''] \<and>
   get_for_you (mongo small_store) (Some ''u2'') \<noteq> get_for_you (mongo small_store) None"
proof -
  have 3: "style default_preferences = []" "favoriteLocations default_preferences = []"
    by (simp_all add: default_preferences_def)
  have a: "get_for_you (mongo small_store) (Some ''u2'')
     = Success (personal_section (Some default_preferences) [shop_b, shop_a, shop_d, shop_c])"
    using 3
    by (simp add: get_for_you_def small_store_users user_skipped_def empty_profile_shops
        small_store_by_rating)
  have b: "get_for_you (mongo small_store) None
     = Success (anonymous_section [shop_a, shop_d, shop_b, shop_c])"
    by (simp add: get_for_you_def Shop_aggregate_mongo filter_active_only small_store_sample)
  have c: "personal_section (Some default_preferences) [shop_b, shop_a, shop_d, shop_c]
      \<noteq> anonymous_section [shop_a, shop_d, shop_b, shop_c]"
    by (simp add: personal_section_def anonymous_section_def)
  from 3 a b c show ?thesis
    by (simp add: personal_section_def wrap_def first_style_def)
qed

section \<open>GET /category/:category\<close>

text \<open>
  For every identifier that is not the name of an inherited member, the fallback works:
  \<open>trending\<close>, an identifier without table entry and one mapped to no tag all run the
  Popularity Scorer's query.
\<close>

lemma category_fallback_regular:
  assumes "\<not> inherited category"
    and "category = ''trending'' \<or> map_of categoryTagMap category = None \<or>
         map_of categoryTagMap category = Some []"
  shows "category_shops db category = Shop_find db active_only [By_reviewCount, By_rating] 12"
  using assms
  by (auto simp: category_shops_def get_property_regular split: option.splits)

lemma small_store_constructor:
  "find_shops (shops small_store) (tag_query [function_text ''Object'']) [By_rating] 12 = []"
  by code_simp

text \<open>
  Claim C5, at the category identifier \<open>constructor\<close>. It is absent from the
  category table, yet \<open>categoryTagMap["constructor"]\<close> is the inherited \<open>Object\<close>
  function: truthy, with \<open>length\<close> 1. The handler takes the tag-filter branch and returns
  no shop, where the Popularity Scorer returns the four active shops.
\<close>

theorem category_constructor_differs:
  "map_of categoryTagMap ''constructor'' = None \<and>
   get_category (mongo small_store) ''constructor'' = Success [] \<and>
   get_trending (mongo small_store) = Success [shop_c, shop_b, shop_a, shop_d]"
proof -
  have "get_property categoryTagMap ''constructor'' = Inherited_function ''Object'' 1"
    by (simp add: get_property_def categoryTagMap_def object_prototype_def)
  then have "get_category (mongo small_store) ''constructor'' = Success []"
    by (simp add: get_category_def category_shops_def Shop_find_mongo small_store_constructor)
  moreover have "get_trending (mongo small_store) = Success [shop_c, shop_b, shop_a, shop_d]"
    by (simp add: get_trending_def Shop_find_mongo small_store_trending)
  moreover have "map_of categoryTagMap ''constructor'' = None"
    by (simp add: categoryTagMap_def)
  ultimately show ?thesis by simp
qed

section \<open>Building the preference profile\<close>


lemma cast_preferences_empty: "cast_preferences num no_preferences = Inr default_preferences"
  by (simp add: cast_preferences_def ebind_def or_default_def no_preferences_def cast_sizes_def
      cast_budget_def default_preferences_def)














section \<open>Stored users always have preferences\<close>

lemma User_create_preferences:
  "User_create num new_id doc = Inr u \<Longrightarrow> preferences u \<noteq> None"
  by (auto simp: User_create_def ebind_def split: sum.splits)

lemma User_create_without:
  "User_create num new_id
     \<lparr>n_email = e, n_name = n, n_preferences = None, n_onboardingCompleted = c\<rparr>
   = Inr \<lparr>uid = new_id, email = e, uname = n, preferences = Some default_preferences,
          onboardingCompleted = c\<rparr>"
  by (simp add: User_create_def ebind_def cast_preferences_empty)

lemma register_without_answers:
  "register_user num new_id \<lparr>b_email = e, b_name = n, b_onboardingAnswers = None\<rparr>
   = Inr \<lparr>uid = new_id, email = e, uname = n, preferences = Some default_preferences,
          onboardingCompleted = False\<rparr>"
  by (simp add: register_user_def User_create_def ebind_def cast_preferences_empty)

lemma skipped_sections:
  assumes "User_findById (mongo st) i = Inr (Some u)"
    and "preferences u = Some default_preferences"
  shows "get_sections (mongo st) (Some i)
     = Success [for_you_section (find_shops (shops st) active_only [By_rating, By_reviewCount] 12),
                trending_section (find_shops (shops st) active_only [By_reviewCount, By_rating] 6),
                new_section (find_shops (shops st) active_only [By_createdAt] 6)]"
proof -
  have "getPersonalizedShops (mongo st) default_preferences
      = Inr (find_shops (shops st) active_only [By_rating, By_reviewCount] 12)"
    by (rule empty_profile_shops) (simp_all add: default_preferences_def)
  then show ?thesis
    using assms by (simp add: get_sections_def compose_sections_mongo sections_for_you_def)
qed

text \<open>
  A user document created through \<open>userSchema\<close> always has preferences; a document
  created without preferences, and a registration without onboarding answers, get the
  schema defaults. Hence for a stored user the gate of \<open>GET /sections\<close> holds, every
  successful response starts with For You, and for a user with the default preferences
  the response succeeds on every store whose reads succeed.
\<close>

lemma preferences_never_absent:
  "(\<forall>u. User_create num new_id doc = Inr u \<longrightarrow> preferences u \<noteq> None) \<and>
   User_create num new_id
       \<lparr>n_email = e, n_name = n, n_preferences = None, n_onboardingCompleted = False\<rparr>
     = Inr \<lparr>uid = new_id, email = e, uname = n, preferences = Some default_preferences,
            onboardingCompleted = False\<rparr> \<and>
   register_user num new_id \<lparr>b_email = e, b_name = n, b_onboardingAnswers = None\<rparr>
     = Inr \<lparr>uid = new_id, email = e, uname = n, preferences = Some default_preferences,
            onboardingCompleted = False\<rparr> \<and>
   (\<forall>u secs. User_create num new_id doc = Inr u \<and> User_findById db i = Inr (Some u) \<and>
        get_sections db (Some i) = Success secs \<longrightarrow>
        has_profile db (Some i) \<and>
        map title secs = [''For You'', ''Trending This Week'', ''Recently Added'']) \<and>
   (\<forall>u. User_findById (mongo st) i = Inr (Some u) \<and>
        preferences u = Some default_preferences \<longrightarrow>
        get_sections (mongo st) (Some i)
          = Success [for_you_section (find_shops (shops st) active_only [By_rating, By_reviewCount] 12),
                     trending_section (find_shops (shops st) active_only [By_reviewCount, By_rating] 6),
                     new_section (find_shops (shops st) active_only [By_createdAt] 6)])"
proof (intro conjI allI impI)
  fix u
  assume "User_create num new_id doc = Inr u"
  then show "preferences u \<noteq> None"
    by (rule User_create_preferences)
next
  show "User_create num new_id
       \<lparr>n_email = e, n_name = n, n_preferences = None, n_onboardingCompleted = False\<rparr>
     = Inr \<lparr>uid = new_id, email = e, uname = n, preferences = Some default_preferences,
            onboardingCompleted = False\<rparr>"
    by (rule User_create_without)
next
  show "register_user num new_id \<lparr>b_email = e, b_name = n, b_onboardingAnswers = None\<rparr>
     = Inr \<lparr>uid = new_id, email = e, uname = n, preferences = Some default_preferences,
            onboardingCompleted = False\<rparr>"
    by (rule register_without_answers)
next
  fix u secs
  assume a: "User_create num new_id doc = Inr u \<and> User_findById db i = Inr (Some u) \<and>
        get_sections db (Some i) = Success secs"
  then have "preferences u \<noteq> None"
    using User_create_preferences by blast
  with a show hp: "has_profile db (Some i)"
    by (simp add: has_profile_def)
  from a obtain s1 t n where
    s1: "sections_for_you db (Some i) = Inr s1"
    and secs: "secs = s1 @ [trending_section t] @ [new_section n]"
    by (auto simp: get_sections_def compose_sections_def split: sum.splits)
  from sections_for_you_cases[OF s1] hp
  show "map title secs = [''For You'', ''Trending This Week'', ''Recently Added'']"
    by (auto simp: secs for_you_title)
next
  fix u
  assume "User_findById (mongo st) i = Inr (Some u) \<and> preferences u = Some default_preferences"
  then show "get_sections (mongo st) (Some i)
          = Success [for_you_section (find_shops (shops st) active_only [By_rating, By_reviewCount] 12),
                     trending_section (find_shops (shops st) active_only [By_reviewCount, By_rating] 6),
                     new_section (find_shops (shops st) active_only [By_createdAt] 6)]"
    using skipped_sections by blast
qed

lemma preferences_never_absent_example:
  "register_user (\<lambda>s. None) ''u2''
       \<lparr>b_email = ''w@example.com'', b_name = ''W'', b_onboardingAnswers = None\<rparr>
     = Inr user_skipped \<and>
   User_findById (mongo small_store) ''u2'' = Inr (Some user_skipped) \<and>
   preferences user_skipped = Some default_preferences \<and>
   get_sections (mongo small_store) (Some ''u2'')
     = Success [for_you_section [shop_b, shop_a, shop_d, shop_c],
                trending_section [shop_c, shop_b, shop_a, shop_d],
                new_section [shop_d, shop_c, shop_b, shop_a]]"
proof -
  note t = preferences_never_absent[of "\<lambda>s. None" "''u2''" _ "''w@example.com''" "''W''" _
      "''u2''" small_store]
  from t have 1: "register_user (\<lambda>s. None) ''u2''
       \<lparr>b_email = ''w@example.com'', b_name = ''W'', b_onboardingAnswers = None\<rparr>
     = Inr user_skipped"
    by (simp add: user_skipped_def)
  have 2: "User_findById (mongo small_store) ''u2'' = Inr (Some user_skipped)"
    by (rule small_store_users)
  have 3: "preferences user_skipped = Some default_preferences"
    by (simp add: user_skipped_def)
  from t 2 3 have "get_sections (mongo small_store) (Some ''u2'')
          = Success [for_you_section (find_shops (shops small_store) active_only [By_rating, By_reviewCount] 12),
                     trending_section (find_shops (shops small_store) active_only [By_reviewCount, By_rating] 6),
                     new_section (find_shops (shops small_store) active_only [By_createdAt] 6)]"
    by blast
  then have 4: "get_sections (mongo small_store) (Some ''u2'')
     = Success [for_you_section [shop_b, shop_a, shop_d, shop_c],
                trending_section [shop_c, shop_b, shop_a, shop_d],
                new_section [shop_d, shop_c, shop_b, shop_a]]"
    by (simp add: small_store_by_rating small_store_trending6 small_store_new)
  from 1 2 3 4 show ?thesis by simp
qed

lemma constructor_registered:
  "register_user (\<lambda>s. None) ''u3''
       \<lparr>b_email = ''c@example.com'', b_name = ''C'',
        b_onboardingAnswers = Some [''style'' \<mapsto> AStrs [''constructor'']]\<rparr>
     = Inr user_constructor"
  by (simp add: register_user_def User_create_def parseOnboardingAnswers_def present_def
      cast_preferences_def ebind_def or_default_def cast_strings_def cast_sizes_def
      cast_budget_def default_preferences_def user_constructor_def)

lemma constructor_store_user:
  "User_findById (mongo constructor_store) ''u3'' = Inr (Some user_constructor)"
  by (simp add: User_findById_mongo constructor_store_def user_vintage_def user_skipped_def
      user_constructor_def)

lemma constructor_throws:
  "getPersonalizedShops db (default_preferences\<lparr>style := [''constructor'']\<rparr>) = Inl TypeError"
  by (simp add: getPersonalizedShops_def get_property_def styleToTagMap_def object_prototype_def)

text \<open>
  Claim C10, at a user registered with the style \<open>constructor\<close>. The registration stores
  the style as given (the schema path is a list of strings without enumeration), the
  user is found and has preferences, so the gate of \<open>GET /sections\<close> holds. But
  \<open>styleToTagMap["constructor"]\<close> is the inherited \<open>Object\<close> function, the spread into
  \<open>preferredTags\<close> throws, and the response is the failure with status 500: no For You
  section, and no section at all.
\<close>

theorem registered_user_without_for_you:
  "register_user (\<lambda>s. None) ''u3''
       \<lparr>b_email = ''c@example.com'', b_name = ''C'',
        b_onboardingAnswers = Some [''style'' \<mapsto> AStrs [''constructor'']]\<rparr>
     = Inr user_constructor \<and>
   User_findById (mongo constructor_store) ''u3'' = Inr (Some user_constructor) \<and>
   has_profile (mongo constructor_store) (Some ''u3'') \<and>
   get_sections (mongo constructor_store) (Some ''u3'')
     = Failure 500 ''Failed to get explore sections''"
proof -
  have p: "preferences user_constructor = Some (default_preferences\<lparr>style := [''constructor'']\<rparr>)"
    by (simp add: user_constructor_def)
  have "has_profile (mongo constructor_store) (Some ''u3'')"
    by (simp add: has_profile_def constructor_store_user p)
  moreover have "get_sections (mongo constructor_store) (Some ''u3'')
     = Failure 500 ''Failed to get explore sections''"
    by (simp add: get_sections_def compose_sections_def sections_for_you_def
        constructor_store_user p constructor_throws)
  ultimately show ?thesis
    using constructor_registered constructor_store_user by simp
qed

section \<open>Minimum section size over the endpoints\<close>

lemma category_by_tags:
  assumes "map_of categoryTagMap category = Some ts" "ts \<noteq> []" "category \<noteq> ''trending''"
  shows "get_category (mongo st) category
           = Success (find_shops (shops st) (tag_query ts) [By_rating] 12)"
    and "length (find_shops (shops st) (tag_query ts) [By_rating] 12)
           = min 12 (length (filter (\<lambda>s. isActive s \<and> tag s \<in> set ts) (shops st)))"
proof -
  have "get_property categoryTagMap category = Own ts"
    using assms(1) by (simp add: get_property_def)
  then show "get_category (mongo st) category
           = Success (find_shops (shops st) (tag_query ts) [By_rating] 12)"
    using assms(2,3) by (simp add: get_category_def category_shops_def Shop_find_mongo)
  have "filter (matches (tag_query ts)) (shops st)
      = filter (\<lambda>s. isActive s \<and> tag s \<in> set ts) (shops st)"
    by (rule filter_cong) (simp_all add: matches_def tag_query_def)
  then show "length (find_shops (shops st) (tag_query ts) [By_rating] 12)
           = min 12 (length (filter (\<lambda>s. isActive s \<and> tag s \<in> set ts) (shops st)))"
    by (simp add: length_find_shops)
qed

lemma single_endpoints_minimum:
  assumes "6 \<le> length (filter isActive (shops st))"
  shows "\<exists>found. get_trending (mongo st) = Success found \<and> 6 \<le> length found"
    and "\<exists>found. get_new (mongo st) = Success found \<and> 6 \<le> length found"
    and "\<exists>sec. get_for_you (mongo st) None = Success sec \<and> 6 \<le> length (items sec)"
  using assms
  by (simp_all add: get_trending_def get_new_def get_for_you_def Shop_find_mongo
      Shop_aggregate_mongo length_find_shops length_sample filter_active_only
      anonymous_section_def)

lemma personal_for_you_minimum:
  assumes "distinct (map sid (shops st))" "6 \<le> length (filter isActive (shops st))"
    and "get_for_you (mongo st) (Some i) = Success sec"
  shows "6 \<le> length (items sec)"
proof -
  from get_for_you_cases[OF assms(3)] obtain u p found where
    r: "getPersonalizedShops (mongo st) p = Inr found"
    and sec: "sec = personal_section (Some p) found"
    by blast
  from personalized_shape[OF assms(1) r] assms(2) have "6 \<le> length found"
    by (auto simp: Let_def)
  then show ?thesis
    by (simp add: sec personal_section_def)
qed

lemma six_store_budget:
  "find_shops (shops six_store) (tag_query [''Budget'', ''Cheapest'', ''Wholesale'']) [By_rating] 12
     = [shop_a, shop_g, shop_c]"
  by code_simp

lemma budget_tags: "map_of categoryTagMap ''budget'' = Some [''Budget'', ''Cheapest'', ''Wholesale'']"
  by (simp add: categoryTagMap_def)

lemma six_store_active:
  "filter isActive (shops six_store) = [shop_a, shop_b, shop_c, shop_d, shop_f, shop_g]"
  by (simp add: example_defs)

text \<open>
  Claim C8, as amended. Let the catalog's identifiers be distinct and the profile's
  styles be ordinary keys (a style naming a member inherited from \<open>Object.prototype\<close>
  makes the tag loop throw before any read, whatever the catalog holds). Then
  \<open>getPersonalizedShops\<close> returns a list and no error: the matched shops \<open>found\<close>
  (at most 12, sorted) followed by \<open>extra\<close>, where \<open>extra\<close> is empty when six or more
  matched and otherwise a sample of active shops outside \<open>found\<close> of size
  \<open>min (6 - |found|) (A - |found|)\<close>, \<open>A\<close> the number of active shops. With
  \<open>A \<ge> 6\<close> the result has at least 6 shops; a result of fewer than 6 contains every
  active shop. With \<open>A \<ge> 6\<close>, every section of a successful \<open>GET /sections\<close> response,
  the answers of \<open>GET /trending\<close> and \<open>GET /new\<close>, the anonymous \<open>GET /for-you\<close> section
  and every successful authenticated \<open>GET /for-you\<close> section hold at least 6 items.
  The Category endpoint is left out of the guarantee: for a category with a non-empty
  tag set it has no backfill and returns \<open>min 12\<close> (number of active shops whose tag is
  in the set) shops, however many shops are active.
\<close>

theorem section_minimum:
  assumes d: "distinct (map sid (shops st))"
    and s: "list_all (\<lambda>s. \<not> inherited s) (style p)"
  shows "(\<exists>tags extra.
     collect_tags [] (style p) = Inr tags \<and>
     (let found = find_shops (shops st) (personal_query p tags) [By_rating, By_reviewCount] 12;
          res = found @ extra in
        getPersonalizedShops (mongo st) p = Inr res \<and>
        set extra \<subseteq> {s \<in> set (shops st). isActive s \<and> sid s \<notin> sid ` set found} \<and>
        length extra
          = (if length found < 6
             then min (6 - length found) (length (filter isActive (shops st)) - length found)
             else 0) \<and>
        (6 \<le> length (filter isActive (shops st)) \<longrightarrow> 6 \<le> length res) \<and>
        (length res < 6 \<longrightarrow> {s \<in> set (shops st). isActive s} \<subseteq> set res)) \<and>
     (6 \<le> length (filter isActive (shops st)) \<and> get_sections (mongo st) userId = Success secs
        \<longrightarrow> list_all (\<lambda>sec. 6 \<le> length (items sec)) secs)) \<and>
   (6 \<le> length (filter isActive (shops st)) \<longrightarrow>
      (\<exists>found. get_trending (mongo st) = Success found \<and> 6 \<le> length found) \<and>
      (\<exists>found. get_new (mongo st) = Success found \<and> 6 \<le> length found) \<and>
      (\<exists>sec. get_for_you (mongo st) None = Success sec \<and> 6 \<le> length (items sec))) \<and>
   (6 \<le> length (filter isActive (shops st)) \<and> get_for_you (mongo st) (Some i) = Success fy
      \<longrightarrow> 6 \<le> length (items fy)) \<and>
   (map_of categoryTagMap category = Some ts \<and> ts \<noteq> [] \<and> category \<noteq> ''trending'' \<longrightarrow>
      get_category (mongo st) category
        = Success (find_shops (shops st) (tag_query ts) [By_rating] 12) \<and>
      length (find_shops (shops st) (tag_query ts) [By_rating] 12)
        = min 12 (length (filter (\<lambda>s. isActive s \<and> tag s \<in> set ts) (shops st))))"
proof (intro conjI)
  show "\<exists>tags extra.
     collect_tags [] (style p) = Inr tags \<and>
     (let found = find_shops (shops st) (personal_query p tags) [By_rating, By_reviewCount] 12;
          res = found @ extra in
        getPersonalizedShops (mongo st) p = Inr res \<and>
        set extra \<subseteq> {s \<in> set (shops st). isActive s \<and> sid s \<notin> sid ` set found} \<and>
        length extra
          = (if length found < 6
             then min (6 - length found) (length (filter isActive (shops st)) - length found)
             else 0) \<and>
        (6 \<le> length (filter isActive (shops st)) \<longrightarrow> 6 \<le> length res) \<and>
        (length res < 6 \<longrightarrow> {s \<in> set (shops st). isActive s} \<subseteq> set res)) \<and>
     (6 \<le> length (filter isActive (shops st)) \<and> get_sections (mongo st) userId = Success secs
        \<longrightarrow> list_all (\<lambda>sec. 6 \<le> length (items sec)) secs)"
    using d s by (rule personalized_minimum)
next
  show "6 \<le> length (filter isActive (shops st)) \<longrightarrow>
      (\<exists>found. get_trending (mongo st) = Success found \<and> 6 \<le> length found) \<and>
      (\<exists>found. get_new (mongo st) = Success found \<and> 6 \<le> length found) \<and>
      (\<exists>sec. get_for_you (mongo st) None = Success sec \<and> 6 \<le> length (items sec))"
    using single_endpoints_minimum[of st] by blast
next
  show "6 \<le> length (filter isActive (shops st)) \<and> get_for_you (mongo st) (Some i) = Success fy
      \<longrightarrow> 6 \<le> length (items fy)"
    using personal_for_you_minimum[OF d] by blast
next
  show "map_of categoryTagMap category = Some ts \<and> ts \<noteq> [] \<and> category \<noteq> ''trending'' \<longrightarrow>
      get_category (mongo st) category
        = Success (find_shops (shops st) (tag_query ts) [By_rating] 12) \<and>
      length (find_shops (shops st) (tag_query ts) [By_rating] 12)
        = min 12 (length (filter (\<lambda>s. isActive s \<and> tag s \<in> set ts) (shops st)))"
    using category_by_tags[of category ts st] by blast
qed

theorem section_minimum_witness:
  "distinct (map sid (shops six_store)) \<and>
   list_all (\<lambda>s. \<not> inherited s) (style (default_preferences\<lparr>style := [''vintage'']\<rparr>)) \<and>
   6 \<le> length (filter isActive (shops six_store)) \<and>
   getPersonalizedShops (mongo six_store) (default_preferences\<lparr>style := [''vintage'']\<rparr>)
     = Inr [shop_b, shop_c, shop_a, shop_g, shop_d, shop_f] \<and>
   6 \<le> length [shop_b, shop_c, shop_a, shop_g, shop_d, shop_f] \<and>
   distinct (map sid (shops small_store)) \<and>
   getPersonalizedShops (mongo small_store) (default_preferences\<lparr>style := [''vintage'']\<rparr>)
     = Inr [shop_b, shop_d, shop_a, shop_c] \<and>
   length [shop_b, shop_d, shop_a, shop_c] < 6 \<and>
   {s \<in> set (shops small_store). isActive s} \<subseteq> set [shop_b, shop_d, shop_a, shop_c] \<and>
   map_of categoryTagMap ''budget'' = Some [''Budget'', ''Cheapest'', ''Wholesale''] \<and>
   get_category (mongo six_store) ''budget'' = Success [shop_a, shop_g, shop_c] \<and>
   length [shop_a, shop_g, shop_c]
     = min 12 (length (filter (\<lambda>s. isActive s \<and> tag s \<in> set [''Budget'', ''Cheapest'', ''Wholesale''])
                         (shops six_store)))"
proof -
  let ?p = "default_preferences\<lparr>style := [''vintage'']\<rparr>"
  note six_thm = section_minimum[OF six_store_distinct vintage_regular,
      of _ _ _ _ "''budget''" "[''Budget'', ''Cheapest'', ''Wholesale'']"]
  note small_thm = section_minimum[OF small_store_distinct vintage_regular]
  have six: "6 \<le> length (filter isActive (shops six_store))"
    by (simp add: six_store_active)
  have "\<exists>res. getPersonalizedShops (mongo six_store) ?p = Inr res \<and>
          (6 \<le> length (filter isActive (shops six_store)) \<longrightarrow> 6 \<le> length res)"
    using six_thm[THEN conjunct1] unfolding Let_def by blast
  then have a: "6 \<le> length [shop_b, shop_c, shop_a, shop_g, shop_d, shop_f]"
    using six by (simp add: six_store_personal)
  have "\<exists>res. getPersonalizedShops (mongo small_store) ?p = Inr res \<and>
          (length res < 6 \<longrightarrow> {s \<in> set (shops small_store). isActive s} \<subseteq> set res)"
    using small_thm[THEN conjunct1] unfolding Let_def by blast
  then have b: "{s \<in> set (shops small_store). isActive s} \<subseteq> set [shop_b, shop_d, shop_a, shop_c]"
    by (simp add: small_store_personal)
  have t: "map_of categoryTagMap ''budget'' = Some [''Budget'', ''Cheapest'', ''Wholesale''] \<and>
      [''Budget'', ''Cheapest'', ''Wholesale''] \<noteq> [] \<and> ''budget'' \<noteq> ''trending''"
    using budget_tags by simp
  have c: "get_category (mongo six_store) ''budget''
        = Success (find_shops (shops six_store) (tag_query [''Budget'', ''Cheapest'', ''Wholesale''])
            [By_rating] 12) \<and>
      length (find_shops (shops six_store) (tag_query [''Budget'', ''Cheapest'', ''Wholesale''])
            [By_rating] 12)
        = min 12 (length (filter (\<lambda>s. isActive s \<and> tag s \<in> set [''Budget'', ''Cheapest'', ''Wholesale''])
                            (shops six_store)))"
    using six_thm[THEN conjunct2, THEN conjunct2, THEN conjunct2] t by (rule mp)
  have c1: "get_category (mongo six_store) ''budget'' = Success [shop_a, shop_g, shop_c]"
    using c[THEN conjunct1] by (simp only: six_store_budget)
  have c2: "length [shop_a, shop_g, shop_c]
     = min 12 (length (filter (\<lambda>s. isActive s \<and> tag s \<in> set [''Budget'', ''Cheapest'', ''Wholesale''])
                         (shops six_store)))"
    using c[THEN conjunct2] by (simp only: six_store_budget)
  have l1: "6 \<le> length [shop_b, shop_c, shop_a, shop_g, shop_d, shop_f]"
    by (rule a)
  have l2: "length [shop_b, shop_d, shop_a, shop_c] < 6"
    by simp
  show ?thesis
    by (intro conjI six_store_distinct vintage_regular six six_store_personal l1
        small_store_distinct small_store_personal l2 b budget_tags c1 c2)
qed

text \<open>
  Claim C8 as stated fails at the Category section: six shops are active, yet
  \<open>GET /category/budget\<close> (limit 12) returns the three active shops tagged Budget and
  nothing else, although the active catalog is not exhausted (\<open>shop_b\<close> is active and
  not returned).
\<close>

theorem category_section_underfilled:
  "6 \<le> length (filter isActive (shops six_store)) \<and>
   get_category (mongo six_store) ''budget'' = Success [shop_a, shop_g, shop_c] \<and>
   length [shop_a, shop_g, shop_c] < 6 \<and>
   shop_b \<in> set (filter isActive (shops six_store)) \<and>
   shop_b \<notin> set [shop_a, shop_g, shop_c]"
proof -
  have "get_category (mongo six_store) ''budget'' = Success [shop_a, shop_g, shop_c]"
    using category_by_tags(1)[OF budget_tags, of six_store] by (simp add: six_store_budget)
  moreover have "shop_b \<notin> set [shop_a, shop_g, shop_c]"
    by (simp add: shop_a_def shop_b_def shop_c_def shop_g_def)
  ultimately show ?thesis
    by (simp add: six_store_active)
qed

end
